theory Spec2Isabelle
  imports Complex_Main
begin

section \<open>Syntax trees\<close>

text \<open>
  The analyzer reads the concrete syntax tree of the external parsing library through
  \<^verbatim>\<open>node.type\<close>, \<^verbatim>\<open>node.text.decode()\<close>, \<^verbatim>\<open>node.start_point[0]\<close>,
  \<^verbatim>\<open>node.end_point[0]\<close>, \<^verbatim>\<open>node.children\<close>, \<^verbatim>\<open>node.child(i)\<close> and
  \<^verbatim>\<open>node.child_by_field_name(f)\<close>. A node carries exactly these: its type, the
  field name under which its parent holds it (if any), its text, its first and last row
  (0-based) and its children in order.
\<close>

datatype node =
  Node (ntype: string) (nfield: "string option") (ntext: string)
       (start_row: nat) (end_row: nat) (children: "node list")

definition child :: "node \<Rightarrow> nat \<Rightarrow> node option" where
  "child n i = (if i < length (children n) then Some (children n ! i) else None)"

definition child_by_field_name :: "node \<Rightarrow> string \<Rightarrow> node option" where
  "child_by_field_name n f = find (\<lambda>c. nfield c = Some f) (children n)"

section \<open>Complexity scorer\<close>

text \<open>
  \<^verbatim>\<open>calculate_python_complexity\<close>: the nested function
  \<^verbatim>\<open>count_complexity_constructs\<close> adds to the nonlocal \<^verbatim>\<open>complexity\<close> and then
  visits every child; the accumulator is passed explicitly.
\<close>

fun count_complexity_constructs :: "node \<Rightarrow> real \<Rightarrow> real"
  and count_complexity_constructs_children :: "node list \<Rightarrow> real \<Rightarrow> real" where
  "count_complexity_constructs (Node ty fld tx sr er cs) complexity =
     count_complexity_constructs_children cs
       (if ty \<in> set [''if_statement'', ''for_statement'', ''while_statement'', ''try_statement'']
        then complexity + 1
        else if ty = ''elif_clause'' then complexity + 0.5
        else if ty = ''except_clause'' then complexity + 1
        else if ty \<in> set [''and_expression'', ''or_expression''] then complexity + 1
        else complexity)"
| "count_complexity_constructs_children [] complexity = complexity"
| "count_complexity_constructs_children (c # cs) complexity =
     count_complexity_constructs_children cs (count_complexity_constructs c complexity)"

definition calculate_python_complexity :: "node option \<Rightarrow> real" where
  "calculate_python_complexity node =
     (case node of None \<Rightarrow> 1.0 | Some n \<Rightarrow> count_complexity_constructs n 1.0)"

text \<open>\<^verbatim>\<open>calculate_js_complexity\<close>, with its nested \<^verbatim>\<open>count_js_complexity\<close>.\<close>

fun count_js_complexity :: "node \<Rightarrow> real \<Rightarrow> real"
  and count_js_complexity_children :: "node list \<Rightarrow> real \<Rightarrow> real" where
  "count_js_complexity (Node ty fld tx sr er cs) complexity =
     count_js_complexity_children cs
       (if ty \<in> set [''if_statement'', ''for_statement'', ''while_statement'', ''switch_statement'']
        then complexity + 1
        else if ty = ''case_clause'' then complexity + 0.5
        else if ty \<in> set [''binary_expression'', ''logical_expression''] then complexity + 1
        else complexity)"
| "count_js_complexity_children [] complexity = complexity"
| "count_js_complexity_children (c # cs) complexity =
     count_js_complexity_children cs (count_js_complexity c complexity)"

definition calculate_js_complexity :: "node option \<Rightarrow> real" where
  "calculate_js_complexity node =
     (case node of None \<Rightarrow> 1.0 | Some n \<Rightarrow> count_js_complexity n 1.0)"

text \<open>
  \<^verbatim>\<open>calculate_complexity_score\<close>: \<^verbatim>\<open>analyze_node\<close> updates the nonlocal pair
  \<^verbatim>\<open>(total_complexity, element_count)\<close>.
\<close>

fun analyze_node :: "node \<Rightarrow> real \<times> nat \<Rightarrow> real \<times> nat"
  and analyze_node_children :: "node list \<Rightarrow> real \<times> nat \<Rightarrow> real \<times> nat" where
  "analyze_node (Node ty fld tx sr er cs) (total_complexity, element_count) =
     analyze_node_children cs
       (if ty \<in> set [''function_definition'', ''class_definition'', ''method_definition''] then
          (if ty = ''function_definition'' then
             (total_complexity +
                calculate_python_complexity
                  (child_by_field_name (Node ty fld tx sr er cs) ''body''),
              element_count + 1)
           else if ty = ''class_definition'' then
             (total_complexity +
                calculate_python_complexity
                  (child_by_field_name (Node ty fld tx sr er cs) ''body''),
              element_count + 1)
           else (total_complexity, element_count + 1))
        else (total_complexity, element_count))"
| "analyze_node_children [] acc = acc"
| "analyze_node_children (c # cs) acc = analyze_node_children cs (analyze_node c acc)"

definition calculate_complexity_score :: "node option \<Rightarrow> real" where
  "calculate_complexity_score tree_root =
     (case tree_root of
        None \<Rightarrow> 0.0
      | Some rt \<Rightarrow>
          (case analyze_node rt (0.0, 0) of
             (total_complexity, element_count) \<Rightarrow>
               total_complexity / real (max element_count 1)))"

section \<open>Python values used by the extractors\<close>

text \<open>
  A raised exception is a value. \<^verbatim>\<open>AttributeError\<close> is what Python raises when an
  attribute of \<^verbatim>\<open>None\<close> is read (\<^verbatim>\<open>node.child(0).type\<close> on a node without children);
  \<^verbatim>\<open>KeyError\<close> is a failed dictionary lookup; \<^verbatim>\<open>Raised\<close> is any exception of an
  external collaborator (the parsing library, the file system), with its message.
\<close>

datatype exn = AttributeError string | KeyError string | Raised string

fun str_exn :: "exn \<Rightarrow> string" where
  "str_exn (AttributeError a) =
     [CHR 0x27] @ ''NoneType'' @ [CHR 0x27] @ '' object has no attribute '' @ [CHR 0x27] @ a @ [CHR 0x27]"
| "str_exn (KeyError k) = [CHR 0x27] @ k @ [CHR 0x27]"
| "str_exn (Raised msg) = msg"

definition none_has_no :: "string \<Rightarrow> exn + 'a" where
  "none_has_no attr = Inl (AttributeError attr)"

fun str_nat :: "nat \<Rightarrow> string" where
  "str_nat n =
     (if n < 10 then [char_of (48 + n)]
      else str_nat (n div 10) @ [char_of (48 + n mod 10)])"

declare str_nat.simps [simp del]

fun join :: "string \<Rightarrow> string list \<Rightarrow> string" where
  "join sep [] = []"
| "join sep [x] = x"
| "join sep (x # y # ys) = x @ sep @ join sep (y # ys)"

definition strip_chars :: "string \<Rightarrow> string \<Rightarrow> string" where
  "strip_chars cs s =
     rev (dropWhile (\<lambda>c. c \<in> set cs) (rev (dropWhile (\<lambda>c. c \<in> set cs) s)))"

definition rstrip_chars :: "string \<Rightarrow> string \<Rightarrow> string" where
  "rstrip_chars cs s = rev (dropWhile (\<lambda>c. c \<in> set cs) (rev s))"

section \<open>Data model\<close>

text \<open>
  The extractors return dictionaries; each becomes a record with the dictionary's keys
  (prefixed, since a field name is a constant). \<^verbatim>\<open>"source"\<close> of a relationship is
  \<^verbatim>\<open>None\<close> or a string.
\<close>

record element =
  el_id :: string
  el_type :: string
  el_name :: string
  el_start_line :: nat
  el_end_line :: nat
  el_signature :: string
  el_documentation :: string
  el_complexity :: real
  el_dependencies :: "string list"
  el_parameters :: "string list"
  el_return_type :: string
  el_decorators :: "string list"
  el_visibility :: string
  el_is_async :: bool
  el_is_deprecated :: bool
  el_source_code :: string

record relationship =
  rel_type :: string
  rel_source :: "string option"
  rel_target :: string
  rel_line :: nat
  rel_context :: string
  rel_confidence :: real
  rel_is_direct :: bool

text \<open>
  \<^verbatim>\<open>FileAnalysis\<close>, without \<^verbatim>\<open>parsed_at\<close> (the wall clock) and
  \<^verbatim>\<open>tree_sitter_tree\<close> (the parsing library's printout of the tree).
\<close>

record file_analysis =
  fa_file_path :: string
  fa_language :: string
  fa_parsing_status :: string
  fa_error_message :: string
  fa_elements_found :: nat
  fa_relationships_found :: nat
  fa_complexity_score :: real
  fa_lines_of_code :: nat

definition FileAnalysis :: file_analysis where
  "FileAnalysis =
     \<lparr>fa_file_path = '''', fa_language = '''', fa_parsing_status = ''success'',
      fa_error_message = '''', fa_elements_found = 0, fa_relationships_found = 0,
      fa_complexity_score = 0.0, fa_lines_of_code = 0\<rparr>"

section \<open>Helper extractors\<close>

definition extract_call_name :: "node \<Rightarrow> exn + string" where
  "extract_call_name node =
     (case child node 0 of
        None \<Rightarrow> none_has_no ''type''
      | Some func_node \<Rightarrow>
          if ntype func_node = ''attribute'' then
            (case child func_node 0 of
               None \<Rightarrow> none_has_no ''text''
             | Some obj \<Rightarrow>
                 (case child func_node 1 of
                    None \<Rightarrow> none_has_no ''text''
                  | Some meth \<Rightarrow> Inr (ntext obj @ ''.'' @ ntext meth)))
          else if ntype func_node = ''identifier'' then Inr (ntext func_node)
          else Inr '''')"

definition extract_import_module :: "node \<Rightarrow> exn + string" where
  "extract_import_module node =
     (case child node 0 of
        None \<Rightarrow> none_has_no ''type''
      | Some c \<Rightarrow>
          if ntype c = ''dotted_name'' then Inr (ntext c)
          else if ntype c = ''identifier'' then Inr (ntext c)
          else Inr '''')"

definition extract_attribute_name :: "node \<Rightarrow> exn + string" where
  "extract_attribute_name node =
     (case child node 1 of
        None \<Rightarrow> none_has_no ''type''
      | Some c \<Rightarrow> if ntype c = ''identifier'' then Inr (ntext c) else Inr '''')"

definition extract_js_call_name :: "node \<Rightarrow> string" where
  "extract_js_call_name node =
     (case child_by_field_name node ''function'' of
        Some callee \<Rightarrow> ntext callee
      | None \<Rightarrow> '''')"

definition extract_js_import_module :: "node \<Rightarrow> string" where
  "extract_js_import_module node =
     (case child_by_field_name node ''source'' of
        Some source_node \<Rightarrow> strip_chars [CHR 0x27] (strip_chars [CHR 0x22] (ntext source_node))
      | None \<Rightarrow> '''')"

definition extract_python_docstring :: "node \<Rightarrow> exn + string" where
  "extract_python_docstring node =
     (case child_by_field_name node ''body'' of
        None \<Rightarrow> Inr ''''
      | Some body_node \<Rightarrow>
          (case children body_node of
             [] \<Rightarrow> Inr ''''
           | first_stmt # rest \<Rightarrow>
               if ntype first_stmt = ''expression_statement'' then
                 (case child first_stmt 0 of
                    None \<Rightarrow> none_has_no ''type''
                  | Some expr \<Rightarrow> if ntype expr = ''string'' then Inr (ntext expr) else Inr '''')
               else Inr ''''))"

definition extract_js_docstring :: "node \<Rightarrow> string" where
  "extract_js_docstring node = ''''"

text \<open>
  \<^verbatim>\<open>extract_python_dependencies\<close>: \<^verbatim>\<open>find_calls\<close> appends to \<^verbatim>\<open>dependencies\<close>;
  the result is \<^verbatim>\<open>list(set(dependencies))\<close>, whose order Python leaves open: the model
  keeps one copy of each name, in the order \<open>remdups\<close> gives.
\<close>

fun find_calls :: "node \<Rightarrow> string list \<Rightarrow> exn + string list"
  and find_calls_children :: "node list \<Rightarrow> string list \<Rightarrow> exn + string list" where
  "find_calls (Node ty fld tx sr er cs) dependencies =
     (if ty = ''call'' then
        (case extract_call_name (Node ty fld tx sr er cs) of
           Inl e \<Rightarrow> Inl e
         | Inr func_name \<Rightarrow>
             find_calls_children cs
               (if func_name \<noteq> '''' then dependencies @ [func_name] else dependencies))
      else find_calls_children cs dependencies)"
| "find_calls_children [] dependencies = Inr dependencies"
| "find_calls_children (c # cs) dependencies =
     (case find_calls c dependencies of
        Inl e \<Rightarrow> Inl e
      | Inr dependencies' \<Rightarrow> find_calls_children cs dependencies')"

definition extract_python_dependencies :: "node \<Rightarrow> exn + string list" where
  "extract_python_dependencies node =
     (case find_calls node [] of Inl e \<Rightarrow> Inl e | Inr dependencies \<Rightarrow> Inr (remdups dependencies))"

fun find_js_calls :: "node \<Rightarrow> string list \<Rightarrow> string list"
  and find_js_calls_children :: "node list \<Rightarrow> string list \<Rightarrow> string list" where
  "find_js_calls (Node ty fld tx sr er cs) dependencies =
     find_js_calls_children cs
       (if ty = ''call_expression'' \<and> extract_js_call_name (Node ty fld tx sr er cs) \<noteq> ''''
        then dependencies @ [extract_js_call_name (Node ty fld tx sr er cs)]
        else dependencies)"
| "find_js_calls_children [] dependencies = dependencies"
| "find_js_calls_children (c # cs) dependencies =
     find_js_calls_children cs (find_js_calls c dependencies)"

definition extract_js_dependencies :: "node \<Rightarrow> string list" where
  "extract_js_dependencies node = remdups (find_js_calls node [])"

section \<open>Element extractor\<close>

definition extract_python_function :: "node \<Rightarrow> string \<Rightarrow> nat \<Rightarrow> exn + element" where
  "extract_python_function node file_path element_id =
     (let function_name =
            (case child_by_field_name node ''name'' of
               Some name_node \<Rightarrow> ntext name_node
             | None \<Rightarrow> ''anonymous'');
          parameters =
            (case child_by_field_name node ''parameters'' of
               Some params_node \<Rightarrow>
                 map ntext (filter (\<lambda>param. ntype param = ''identifier'') (children params_node))
             | None \<Rightarrow> []);
          body_node = child_by_field_name node ''body'';
          complexity = calculate_python_complexity body_node;
          decorators = []
      in case extract_python_docstring node of
           Inl e \<Rightarrow> Inl e
         | Inr documentation \<Rightarrow>
             (case extract_python_dependencies node of
                Inl e \<Rightarrow> Inl e
              | Inr dependencies \<Rightarrow>
                  Inr \<lparr>el_id = ''func_'' @ str_nat element_id @ ''_'' @ file_path,
                       el_type = ''function'',
                       el_name = function_name,
                       el_start_line = start_row node + 1,
                       el_end_line = end_row node + 1,
                       el_signature = ''def '' @ function_name @ ''('' @ join '', '' parameters @ '')'',
                       el_documentation = documentation,
                       el_complexity = complexity,
                       el_dependencies = dependencies,
                       el_parameters = parameters,
                       el_return_type = ''Any'',
                       el_decorators = decorators,
                       el_visibility = ''public'',
                       el_is_async = False,
                       el_is_deprecated = False,
                       el_source_code = ntext node\<rparr>))"

definition extract_python_class :: "node \<Rightarrow> string \<Rightarrow> nat \<Rightarrow> exn + element" where
  "extract_python_class node file_path element_id =
     (let class_name =
            (case child_by_field_name node ''name'' of
               Some name_node \<Rightarrow> ntext name_node
             | None \<Rightarrow> ''anonymous'');
          inheritance =
            (case child_by_field_name node ''bases'' of
               Some bases_node \<Rightarrow>
                 map ntext (filter (\<lambda>base. ntype base = ''identifier'') (children bases_node))
             | None \<Rightarrow> []);
          body_node = child_by_field_name node ''body'';
          complexity = calculate_python_complexity body_node
      in case extract_python_docstring node of
           Inl e \<Rightarrow> Inl e
         | Inr documentation \<Rightarrow>
             Inr \<lparr>el_id = ''class_'' @ str_nat element_id @ ''_'' @ file_path,
                  el_type = ''class'',
                  el_name = class_name,
                  el_start_line = start_row node + 1,
                  el_end_line = end_row node + 1,
                  el_signature = ''class '' @ class_name @ ''('' @ join '', '' inheritance @ '')'',
                  el_documentation = documentation,
                  el_complexity = complexity,
                  el_dependencies = inheritance,
                  el_parameters = [],
                  el_return_type = ''class'',
                  el_decorators = [],
                  el_visibility = ''public'',
                  el_is_async = False,
                  el_is_deprecated = False,
                  el_source_code = ntext node\<rparr>)"

definition extract_python_variable :: "node \<Rightarrow> string \<Rightarrow> nat \<Rightarrow> element" where
  "extract_python_variable node file_path element_id =
     (let var_name =
            (case child_by_field_name node ''targets'' of
               Some targets \<Rightarrow>
                 (case children targets of
                    [] \<Rightarrow> ''unknown''
                  | target # rest \<Rightarrow>
                      if ntype target = ''identifier'' then ntext target else ''unknown'')
             | None \<Rightarrow> ''unknown'')
      in \<lparr>el_id = ''var_'' @ str_nat element_id @ ''_'' @ file_path,
          el_type = ''variable'',
          el_name = var_name,
          el_start_line = start_row node + 1,
          el_end_line = end_row node + 1,
          el_signature = var_name @ '' = ...'',
          el_documentation = '''',
          el_complexity = 1.0,
          el_dependencies = [],
          el_parameters = [],
          el_return_type = ''Any'',
          el_decorators = [],
          el_visibility = ''public'',
          el_is_async = False,
          el_is_deprecated = False,
          el_source_code = ntext node\<rparr>)"

definition extract_js_function :: "node \<Rightarrow> string \<Rightarrow> nat \<Rightarrow> element" where
  "extract_js_function node file_path element_id =
     (let function_name =
            (case child_by_field_name node ''name'' of
               Some name_node \<Rightarrow> ntext name_node
             | None \<Rightarrow> ''anonymous'');
          parameters =
            (case child_by_field_name node ''parameters'' of
               Some params_node \<Rightarrow>
                 map ntext (filter (\<lambda>param. ntype param = ''identifier'') (children params_node))
             | None \<Rightarrow> []);
          body_node = child_by_field_name node ''body'';
          complexity = calculate_js_complexity body_node
      in \<lparr>el_id = ''func_'' @ str_nat element_id @ ''_'' @ file_path,
          el_type = ''function'',
          el_name = function_name,
          el_start_line = start_row node + 1,
          el_end_line = end_row node + 1,
          el_signature = ''function '' @ function_name @ ''('' @ join '', '' parameters @ '')'',
          el_documentation = extract_js_docstring node,
          el_complexity = complexity,
          el_dependencies = extract_js_dependencies node,
          el_parameters = parameters,
          el_return_type = ''any'',
          el_decorators = [],
          el_visibility = ''public'',
          el_is_async = False,
          el_is_deprecated = False,
          el_source_code = ntext node\<rparr>)"

definition extract_js_class :: "node \<Rightarrow> string \<Rightarrow> nat \<Rightarrow> element" where
  "extract_js_class node file_path element_id =
     (let class_name =
            (case child_by_field_name node ''name'' of
               Some name_node \<Rightarrow> ntext name_node
             | None \<Rightarrow> ''anonymous'')
      in \<lparr>el_id = ''class_'' @ str_nat element_id @ ''_'' @ file_path,
          el_type = ''class'',
          el_name = class_name,
          el_start_line = start_row node + 1,
          el_end_line = end_row node + 1,
          el_signature = ''class '' @ class_name,
          el_documentation = extract_js_docstring node,
          el_complexity = 1.0,
          el_dependencies = [],
          el_parameters = [],
          el_return_type = ''class'',
          el_decorators = [],
          el_visibility = ''public'',
          el_is_async = False,
          el_is_deprecated = False,
          el_source_code = ntext node\<rparr>)"

definition extract_js_variable :: "node \<Rightarrow> string \<Rightarrow> nat \<Rightarrow> element" where
  "extract_js_variable node file_path element_id =
     (let var_name =
            (case child_by_field_name node ''declarations'' of
               Some declarations \<Rightarrow>
                 (case children declarations of
                    [] \<Rightarrow> ''unknown''
                  | declarator # rest \<Rightarrow>
                      (case child_by_field_name declarator ''name'' of
                         Some name_node \<Rightarrow> ntext name_node
                       | None \<Rightarrow> ''unknown''))
             | None \<Rightarrow> ''unknown'')
      in \<lparr>el_id = ''var_'' @ str_nat element_id @ ''_'' @ file_path,
          el_type = ''variable'',
          el_name = var_name,
          el_start_line = start_row node + 1,
          el_end_line = end_row node + 1,
          el_signature = ''let '' @ var_name @ '' = ...'',
          el_documentation = '''',
          el_complexity = 1.0,
          el_dependencies = [],
          el_parameters = [],
          el_return_type = ''any'',
          el_decorators = [],
          el_visibility = ''public'',
          el_is_async = False,
          el_is_deprecated = False,
          el_source_code = ntext node\<rparr>)"

text \<open>
  \<^verbatim>\<open>extract_code_elements\<close>. The nested \<^verbatim>\<open>traverse_tree\<close> first looks at the node
  (\<open>traverse_tree_visit\<close>: the \<^verbatim>\<open>if language == ...\<close> chain, which appends to
  \<^verbatim>\<open>elements\<close> and increments the nonlocal \<^verbatim>\<open>element_counter\<close>), then calls itself on
  every child. An exception of an extractor leaves the traversal at once.
\<close>

definition traverse_tree_visit ::
  "string \<Rightarrow> string \<Rightarrow> node \<Rightarrow> element list \<times> nat \<Rightarrow> exn + element list \<times> nat" where
  "traverse_tree_visit language file_path node st =
     (case st of (elements, element_counter) \<Rightarrow>
        if language = ''python'' then
          (if ntype node = ''function_definition'' then
             (case extract_python_function node file_path element_counter of
                Inl e \<Rightarrow> Inl e
              | Inr el \<Rightarrow> Inr (elements @ [el], element_counter + 1))
           else if ntype node = ''class_definition'' then
             (case extract_python_class node file_path element_counter of
                Inl e \<Rightarrow> Inl e
              | Inr el \<Rightarrow> Inr (elements @ [el], element_counter + 1))
           else if ntype node = ''assignment'' then
             Inr (elements @ [extract_python_variable node file_path element_counter],
                  element_counter + 1)
           else Inr (elements, element_counter))
        else if language = ''javascript'' then
          (if ntype node = ''function_declaration'' then
             Inr (elements @ [extract_js_function node file_path element_counter],
                  element_counter + 1)
           else if ntype node = ''class_declaration'' then
             Inr (elements @ [extract_js_class node file_path element_counter],
                  element_counter + 1)
           else if ntype node = ''variable_declaration'' then
             Inr (elements @ [extract_js_variable node file_path element_counter],
                  element_counter + 1)
           else Inr (elements, element_counter))
        else Inr (elements, element_counter))"

fun traverse_tree ::
    "string \<Rightarrow> string \<Rightarrow> node \<Rightarrow> element list \<times> nat \<Rightarrow> exn + element list \<times> nat"
  and traverse_tree_children ::
    "string \<Rightarrow> string \<Rightarrow> node list \<Rightarrow> element list \<times> nat \<Rightarrow> exn + element list \<times> nat" where
  "traverse_tree language file_path (Node ty fld tx sr er cs) st =
     (case traverse_tree_visit language file_path (Node ty fld tx sr er cs) st of
        Inl e \<Rightarrow> Inl e
      | Inr st' \<Rightarrow> traverse_tree_children language file_path cs st')"
| "traverse_tree_children language file_path [] st = Inr st"
| "traverse_tree_children language file_path (c # cs) st =
     (case traverse_tree language file_path c st of
        Inl e \<Rightarrow> Inl e
      | Inr st' \<Rightarrow> traverse_tree_children language file_path cs st')"

definition extract_code_elements :: "node \<Rightarrow> string \<Rightarrow> string \<Rightarrow> exn + element list" where
  "extract_code_elements tree_node language file_path =
     (case traverse_tree language file_path tree_node ([], 0) of
        Inl e \<Rightarrow> Inl e
      | Inr (elements, element_counter) \<Rightarrow> Inr elements)"

section \<open>Relationship extractor\<close>

text \<open>
  \<^verbatim>\<open>extract_relationships\<close>. \<^verbatim>\<open>traverse_for_relationships(node, current_element=None)\<close>
  looks at the node (\<open>traverse_for_relationships_visit\<close>) and then calls itself on every
  child with the \<^verbatim>\<open>current_element\<close> it was given; the outer call passes none.
\<close>

definition traverse_for_relationships_visit ::
  "string \<Rightarrow> string \<Rightarrow> node \<Rightarrow> string option \<Rightarrow> relationship list \<Rightarrow> exn + relationship list" where
  "traverse_for_relationships_visit language file_path node current_element relationships =
     (if language = ''python'' then
        (if ntype node = ''call'' then
           (case extract_call_name node of
              Inl e \<Rightarrow> Inl e
            | Inr func_name \<Rightarrow>
                if func_name \<noteq> '''' then
                  Inr (relationships @
                    [\<lparr>rel_type = ''calls'', rel_source = current_element,
                      rel_target = func_name, rel_line = start_row node + 1,
                      rel_context = ntext node, rel_confidence = 0.8, rel_is_direct = True\<rparr>])
                else Inr relationships)
         else if ntype node = ''import_from_statement'' then
           (case extract_import_module node of
              Inl e \<Rightarrow> Inl e
            | Inr module_name \<Rightarrow>
                if module_name \<noteq> '''' then
                  Inr (relationships @
                    [\<lparr>rel_type = ''imports'', rel_source = Some file_path,
                      rel_target = module_name, rel_line = start_row node + 1,
                      rel_context = ntext node, rel_confidence = 0.9, rel_is_direct = True\<rparr>])
                else Inr relationships)
         else if ntype node = ''attribute'' then
           (case extract_attribute_name node of
              Inl e \<Rightarrow> Inl e
            | Inr attr_name \<Rightarrow>
                if attr_name \<noteq> '''' \<and> current_element \<noteq> None \<and> current_element \<noteq> Some '''' then
                  Inr (relationships @
                    [\<lparr>rel_type = ''uses'', rel_source = current_element,
                      rel_target = attr_name, rel_line = start_row node + 1,
                      rel_context = ntext node, rel_confidence = 0.7, rel_is_direct = True\<rparr>])
                else Inr relationships)
         else Inr relationships)
      else if language = ''javascript'' then
        (if ntype node = ''call_expression'' then
           (let func_name = extract_js_call_name node in
            if func_name \<noteq> '''' then
              Inr (relationships @
                [\<lparr>rel_type = ''calls'', rel_source = current_element,
                  rel_target = func_name, rel_line = start_row node + 1,
                  rel_context = ntext node, rel_confidence = 0.8, rel_is_direct = True\<rparr>])
            else Inr relationships)
         else if ntype node = ''import_statement'' then
           (let module_name = extract_js_import_module node in
            if module_name \<noteq> '''' then
              Inr (relationships @
                [\<lparr>rel_type = ''imports'', rel_source = Some file_path,
                  rel_target = module_name, rel_line = start_row node + 1,
                  rel_context = ntext node, rel_confidence = 0.9, rel_is_direct = True\<rparr>])
            else Inr relationships)
         else Inr relationships)
      else Inr relationships)"

fun traverse_for_relationships ::
    "string \<Rightarrow> string \<Rightarrow> node \<Rightarrow> string option \<Rightarrow> relationship list \<Rightarrow> exn + relationship list"
  and traverse_for_relationships_children ::
    "string \<Rightarrow> string \<Rightarrow> node list \<Rightarrow> string option \<Rightarrow> relationship list \<Rightarrow> exn + relationship list"
  where
  "traverse_for_relationships language file_path (Node ty fld tx sr er cs) current_element rels =
     (case traverse_for_relationships_visit language file_path (Node ty fld tx sr er cs)
             current_element rels of
        Inl e \<Rightarrow> Inl e
      | Inr rels' \<Rightarrow>
          traverse_for_relationships_children language file_path cs current_element rels')"
| "traverse_for_relationships_children language file_path [] current_element rels = Inr rels"
| "traverse_for_relationships_children language file_path (c # cs) current_element rels =
     (case traverse_for_relationships language file_path c current_element rels of
        Inl e \<Rightarrow> Inl e
      | Inr rels' \<Rightarrow>
          traverse_for_relationships_children language file_path cs current_element rels')"

definition extract_relationships :: "node \<Rightarrow> string \<Rightarrow> string \<Rightarrow> exn + relationship list" where
  "extract_relationships tree_node language file_path =
     traverse_for_relationships language file_path tree_node None []"

section \<open>Regular expressions\<close>

text \<open>
  The fallback extractors call \<^verbatim>\<open>re.finditer\<close> and \<^verbatim>\<open>re.findall\<close> of Python's
  backtracking matcher. The model covers the constructs their patterns use: literals,
  one character of a class, greedy \<^verbatim>\<open>*\<close> and \<^verbatim>\<open>+\<close> of a class, greedy \<^verbatim>\<open>?\<close>,
  alternation, concatenation, numbered groups and \<^verbatim>\<open>\b\<close>.

  The patterns are \<^verbatim>\<open>str\<close> patterns, so \<^verbatim>\<open>\w\<close>, \<^verbatim>\<open>\s\<close> and \<^verbatim>\<open>\b\<close> follow
  Unicode: below 128 a word character is a letter, a digit or the underscore and white
  space is one of the ten ASCII white space characters; from 128 on Python asks its
  Unicode character database, which is a parameter of the model (\<open>unicode\<close>).
\<close>

record unicode =
  uni_word :: "char \<Rightarrow> bool"
  uni_space :: "char \<Rightarrow> bool"

datatype cls = CSpace | CWord | COneOf string | CNot cls | CUnion cls cls

definition is_ascii :: "char \<Rightarrow> bool" where
  "is_ascii c = ((of_char c :: nat) < 128)"

fun cls_match :: "unicode \<Rightarrow> cls \<Rightarrow> char \<Rightarrow> bool" where
  "cls_match u CSpace c =
     (if is_ascii c
      then c \<in> set [CHR 0x09, CHR 0x0A, CHR 0x0B, CHR 0x0C, CHR 0x0D,
                       CHR 0x1C, CHR 0x1D, CHR 0x1E, CHR 0x1F, CHR 0x20]
      else uni_space u c)"
| "cls_match u CWord c =
     (if is_ascii c
      then c \<in> set ''abcdefghijklmnopqrstuvwxyzABCDEFGHIJKLMNOPQRSTUVWXYZ0123456789_''
      else uni_word u c)"
| "cls_match u (COneOf cs) c = (c \<in> set cs)"
| "cls_match u (CNot k) c = (\<not> cls_match u k c)"
| "cls_match u (CUnion k l) c = (cls_match u k c \<or> cls_match u l c)"

declare cls_match.simps [simp del]

datatype re =
  Lit string | Chr cls | Star cls | Plus cls | Opt re | Alt re re | Seq re re
  | Grp nat re | WordB

fun cat :: "re list \<Rightarrow> re" where
  "cat [] = Lit []"
| "cat [x] = x"
| "cat (x # y # ys) = Seq x (cat (y # ys))"

text \<open>
  A cursor is the text before the position, reversed, and the text after it. The matcher
  returns every way a pattern matches at the cursor, in the order the backtracking
  matcher tries them: the first is the match Python reports.
\<close>

type_synonym cursor = "string \<times> string"
type_synonym groups = "nat \<Rightarrow> string option"

fun star :: "unicode \<Rightarrow> cls \<Rightarrow> string \<Rightarrow> string \<Rightarrow> cursor list" where
  "star u k b [] = [(b, [])]"
| "star u k b (c # r) =
     (if cls_match u k c then star u k (c # b) r @ [(b, c # r)] else [(b, c # r)])"

definition is_word_at :: "unicode \<Rightarrow> string \<Rightarrow> bool" where
  "is_word_at u xs = (case xs of [] \<Rightarrow> False | c # rest \<Rightarrow> cls_match u CWord c)"

fun rmatch :: "unicode \<Rightarrow> re \<Rightarrow> cursor \<times> groups \<Rightarrow> (cursor \<times> groups) list" where
  "rmatch u (Lit w) ((b, r), g) =
     (if take (length w) r = w then [((rev w @ b, drop (length w) r), g)] else [])"
| "rmatch u (Chr k) ((b, r), g) =
     (case r of
        [] \<Rightarrow> []
      | c # r' \<Rightarrow> if cls_match u k c then [((c # b, r'), g)] else [])"
| "rmatch u (Star k) ((b, r), g) = map (\<lambda>z. (z, g)) (star u k b r)"
| "rmatch u (Plus k) ((b, r), g) =
     (case r of
        [] \<Rightarrow> []
      | c # r' \<Rightarrow> if cls_match u k c then map (\<lambda>z. (z, g)) (star u k (c # b) r') else [])"
| "rmatch u (Opt x) ((b, r), g) = rmatch u x ((b, r), g) @ [((b, r), g)]"
| "rmatch u (Alt x y) ((b, r), g) = rmatch u x ((b, r), g) @ rmatch u y ((b, r), g)"
| "rmatch u (Seq x y) ((b, r), g) = concat (map (rmatch u y) (rmatch u x ((b, r), g)))"
| "rmatch u (Grp n x) ((b, r), g) =
     map (\<lambda>z. case z of ((b', r'), g') \<Rightarrow>
            ((b', r'), g'(n \<mapsto> rev (take (length b' - length b) b'))))
         (rmatch u x ((b, r), g))"
| "rmatch u WordB ((b, r), g) = (if is_word_at u b \<noteq> is_word_at u r then [((b, r), g)] else [])"

text \<open>
  A match object: \<^verbatim>\<open>source_code[:match.start()]\<close>, \<^verbatim>\<open>match.group(0)\<close> and the
  numbered groups (\<^verbatim>\<open>None\<close> for a group that took no part in the match).
\<close>

record re_match =
  m_before :: string
  m_group0 :: string
  m_groups :: groups

text \<open>
  \<^verbatim>\<open>re.finditer\<close>: the leftmost match from the cursor on, then the search goes on where
  that match ended. (After a match of the empty string the model moves on by one
  character; no pattern of this program matches the empty string.)
\<close>

fun finditer_from :: "unicode \<Rightarrow> re \<Rightarrow> string \<Rightarrow> string \<Rightarrow> re_match list" where
  "finditer_from u p b r =
     (case rmatch u p ((b, r), (\<lambda>n. None)) of
        [] \<Rightarrow> (case r of [] \<Rightarrow> [] | c # cs \<Rightarrow> finditer_from u p (c # b) cs)
      | z # other \<Rightarrow>
          (case z of ((b', r'), g) \<Rightarrow>
             \<lparr>m_before = rev b, m_group0 = rev (take (length b' - length b) b'), m_groups = g\<rparr> #
             (if length r' < length r then finditer_from u p b' r'
              else (case r of [] \<Rightarrow> [] | c # cs \<Rightarrow> finditer_from u p (c # b) cs))))"

declare finditer_from.simps [simp del]

definition finditer :: "unicode \<Rightarrow> re \<Rightarrow> string \<Rightarrow> re_match list" where
  "finditer u p source_code = finditer_from u p [] source_code"

definition match_group :: "re_match \<Rightarrow> nat \<Rightarrow> string" where
  \<comment> \<open>for a group outside every optional part of its pattern, which is never \<^verbatim>\<open>None\<close>\<close>
  "match_group m n = (case m_groups m n of Some x \<Rightarrow> x | None \<Rightarrow> [])"

definition line_of :: "re_match \<Rightarrow> nat" where
  \<comment> \<open>\<^verbatim>\<open>source_code[:match.start()].count('\n') + 1\<close>\<close>
  "line_of m = length (filter (\<lambda>c. c = CHR 0x0A) (m_before m)) + 1"

section \<open>Regex fallback extractor\<close>

definition py_func_pattern :: re where
  \<comment> \<open>\<^verbatim>\<open>def\s+(\w+)\s*\([^)]*\):\<close>\<close>
  "py_func_pattern =
     cat [Lit ''def'', Plus CSpace, Grp 1 (Plus CWord), Star CSpace,
          Lit ''('', Star (CNot (COneOf '')'')), Lit '')'', Lit '':'']"

definition py_class_pattern :: re where
  \<comment> \<open>\<^verbatim>\<open>class\s+(\w+)\s*(\([^)]*\))?:\<close>\<close>
  "py_class_pattern =
     cat [Lit ''class'', Plus CSpace, Grp 1 (Plus CWord), Star CSpace,
          Opt (Grp 2 (cat [Lit ''('', Star (CNot (COneOf '')'')), Lit '')''])), Lit '':'']"

definition js_func_pattern :: re where
  \<comment> \<open>\<^verbatim>\<open>function\s+(\w+)\s*\([^)]*\)\s*{\<close>\<close>
  "js_func_pattern =
     cat [Lit ''function'', Plus CSpace, Grp 1 (Plus CWord), Star CSpace,
          Lit ''('', Star (CNot (COneOf '')'')), Lit '')'', Star CSpace, Lit ''{'']"

definition js_class_pattern :: re where
  \<comment> \<open>\<^verbatim>\<open>class\s+(\w+)\s*{\<close>\<close>
  "js_class_pattern =
     cat [Lit ''class'', Plus CSpace, Grp 1 (Plus CWord), Star CSpace, Lit ''{'']"

definition py_import_pattern :: re where
  \<comment> \<open>\<^verbatim>\<open>(?:from\s+(\S+)\s+)?import\s+([^\n#]+)\<close>\<close>
  "py_import_pattern =
     cat [Opt (cat [Lit ''from'', Plus CSpace, Grp 1 (Plus (CNot CSpace)), Plus CSpace]),
          Lit ''import'', Plus CSpace, Grp 2 (Plus (CNot (COneOf [CHR 0x0A, CHR ''#''])))]"

definition js_import_pattern :: re where
  \<comment> \<open>\<^verbatim>\<open>import\s+(?:{[^}]+}|[\w*\s,]+)\s+from\s+['\"]([^'\"]+)['\"]\<close>\<close>
  "js_import_pattern =
     cat [Lit ''import'', Plus CSpace,
          Alt (cat [Lit ''{'', Plus (CNot (COneOf ''}'')), Lit ''}''])
              (Plus (CUnion CWord (CUnion (COneOf ''*'') (CUnion CSpace (COneOf '',''))))),
          Plus CSpace, Lit ''from'', Plus CSpace,
          Chr (COneOf [CHR 0x27, CHR 0x22]),
          Grp 1 (Plus (CNot (COneOf [CHR 0x27, CHR 0x22]))),
          Chr (COneOf [CHR 0x27, CHR 0x22])]"

text \<open>
  \<^verbatim>\<open>extract_elements_with_regex\<close>. Its four loops build the same dictionary up to the
  id prefix, the type, the character stripped from the signature and the return type;
  \<^verbatim>\<open>len(elements)\<close> is read when the element is appended.
\<close>

definition regex_element ::
  "string \<Rightarrow> string \<Rightarrow> string \<Rightarrow> string \<Rightarrow> string \<Rightarrow> re_match \<Rightarrow> element list \<Rightarrow> element" where
  "regex_element prefix ty stripped return_type file_path m elements =
     \<lparr>el_id = prefix @ str_nat (length elements) @ ''_'' @ file_path,
      el_type = ty,
      el_name = match_group m 1,
      el_start_line = line_of m,
      el_end_line = 0,
      el_signature = rstrip_chars stripped (m_group0 m),
      el_documentation = '''',
      el_complexity = 1.0,
      el_dependencies = [],
      el_parameters = [],
      el_return_type = return_type,
      el_decorators = [],
      el_visibility = ''public'',
      el_is_async = False,
      el_is_deprecated = False,
      el_source_code = m_group0 m\<rparr>"

definition append_regex_elements ::
  "string \<Rightarrow> string \<Rightarrow> string \<Rightarrow> string \<Rightarrow> string \<Rightarrow> re_match list \<Rightarrow> element list
     \<Rightarrow> element list" where
  "append_regex_elements prefix ty stripped return_type file_path ms elements =
     fold (\<lambda>m els. els @ [regex_element prefix ty stripped return_type file_path m els])
       ms elements"

definition extract_elements_with_regex ::
  "unicode \<Rightarrow> string \<Rightarrow> string \<Rightarrow> string \<Rightarrow> element list" where
  "extract_elements_with_regex u source_code language file_path =
     (if language = ''python'' then
        append_regex_elements ''class_'' ''class'' '':'' ''class'' file_path
          (finditer u py_class_pattern source_code)
          (append_regex_elements ''func_'' ''function'' '':'' ''Any'' file_path
             (finditer u py_func_pattern source_code) [])
      else if language = ''javascript'' then
        append_regex_elements ''class_'' ''class'' ''{'' ''class'' file_path
          (finditer u js_class_pattern source_code)
          (append_regex_elements ''func_'' ''function'' ''{'' ''any'' file_path
             (finditer u js_func_pattern source_code) [])
      else [])"

text \<open>
  \<^verbatim>\<open>extract_relationships_with_regex\<close>. In the Python branch
  \<^verbatim>\<open>match.group(1) or match.group(2)\<close> is stripped of white space; \<^verbatim>\<open>.strip()\<close> of
  \<^verbatim>\<open>None\<close> would raise.
\<close>

definition strip :: "unicode \<Rightarrow> string \<Rightarrow> string" where
  "strip u s = rev (dropWhile (cls_match u CSpace) (rev (dropWhile (cls_match u CSpace) s)))"

definition py_import_relationship ::
  "unicode \<Rightarrow> string \<Rightarrow> re_match \<Rightarrow> exn + relationship" where
  "py_import_relationship u file_path m =
     (let module_name =
            (case m_groups m 1 of
               Some x \<Rightarrow> if x \<noteq> '''' then Some x else m_groups m 2
             | None \<Rightarrow> m_groups m 2)
      in case module_name of
           None \<Rightarrow> Inl (AttributeError ''strip'')
         | Some name \<Rightarrow>
             Inr \<lparr>rel_type = ''imports'', rel_source = Some file_path,
                  rel_target = strip u name, rel_line = line_of m,
                  rel_context = m_group0 m, rel_confidence = 0.9, rel_is_direct = True\<rparr>)"

fun py_import_relationships ::
  "unicode \<Rightarrow> string \<Rightarrow> re_match list \<Rightarrow> relationship list \<Rightarrow> exn + relationship list"
  where
  "py_import_relationships u file_path [] relationships = Inr relationships"
| "py_import_relationships u file_path (m # ms) relationships =
     (case py_import_relationship u file_path m of
        Inl e \<Rightarrow> Inl e
      | Inr rel \<Rightarrow> py_import_relationships u file_path ms (relationships @ [rel]))"

definition js_import_relationship :: "string \<Rightarrow> re_match \<Rightarrow> relationship" where
  "js_import_relationship file_path m =
     \<lparr>rel_type = ''imports'', rel_source = Some file_path,
      rel_target = match_group m 1, rel_line = line_of m,
      rel_context = m_group0 m, rel_confidence = 0.9, rel_is_direct = True\<rparr>"

definition extract_relationships_with_regex ::
  "unicode \<Rightarrow> string \<Rightarrow> string \<Rightarrow> string \<Rightarrow> exn + relationship list" where
  "extract_relationships_with_regex u source_code language file_path =
     (if language = ''python'' then
        py_import_relationships u file_path (finditer u py_import_pattern source_code) []
      else if language = ''javascript'' then
        Inr (map (js_import_relationship file_path) (finditer u js_import_pattern source_code))
      else Inr [])"

text \<open>\<^verbatim>\<open>calculate_complexity_with_regex\<close>; \<^verbatim>\<open>\bif\b\<close> is \<open>keyword_pattern ''if''\<close>.\<close>

definition keyword_pattern :: "string \<Rightarrow> re" where
  "keyword_pattern kw = cat [WordB, Lit kw, WordB]"

definition findall_count :: "unicode \<Rightarrow> re \<Rightarrow> string \<Rightarrow> nat" where
  \<comment> \<open>\<^verbatim>\<open>len(re.findall(pattern, source_code))\<close>\<close>
  "findall_count u p source_code = length (finditer u p source_code)"

definition calculate_complexity_with_regex :: "unicode \<Rightarrow> string \<Rightarrow> real" where
  "calculate_complexity_with_regex u source_code =
     (let complexity = 1.0;
          if_count = findall_count u (keyword_pattern ''if'') source_code;
          for_count = findall_count u (keyword_pattern ''for'') source_code;
          while_count = findall_count u (keyword_pattern ''while'') source_code;
          try_count = findall_count u (keyword_pattern ''try'') source_code;
          complexity = complexity + real (if_count + for_count + while_count + try_count);
          and_count = findall_count u (keyword_pattern ''and'') source_code;
          or_count = findall_count u (keyword_pattern ''or'') source_code;
          complexity = complexity + real (and_count + or_count)
      in complexity)"

section \<open>Parsing one file\<close>

text \<open>
  \<^verbatim>\<open>source_code.splitlines()\<close>: a line ends at a line feed, a carriage return (with
  the line feed after it, if any), a vertical tab, a form feed, a file, group or record
  separator, or the next-line character.
\<close>

fun splitlines_from :: "string \<Rightarrow> string \<Rightarrow> string list" where
  "splitlines_from cur [] = (if cur = [] then [] else [rev cur])"
| "splitlines_from cur (c # cs) =
     (if c = CHR 0x0D then
        (case cs of
           [] \<Rightarrow> rev cur # splitlines_from [] cs
         | d # ds \<Rightarrow>
             if d = CHR 0x0A then rev cur # splitlines_from [] ds
             else rev cur # splitlines_from [] cs)
      else if c \<in> set [CHR 0x0A, CHR 0x0B, CHR 0x0C, CHR 0x1C, CHR 0x1D, CHR 0x1E, CHR 0x85]
      then rev cur # splitlines_from [] cs
      else splitlines_from (c # cur) cs)"

definition splitlines :: "string \<Rightarrow> string list" where
  "splitlines s = splitlines_from [] s"

text \<open>
  The dictionary a parse returns: with \<^verbatim>\<open>"status": "success"\<close> the file path, the
  language, the \<^verbatim>\<open>FileAnalysis\<close>, the elements, the relationships and the
  complexity score; with \<^verbatim>\<open>"status": "error"\<close> the file path and the error text.
\<close>

datatype parse_result =
  Success string string file_analysis "element list" "relationship list" real
| Error string string

text \<open>
  A parser of \<^verbatim>\<open>self.language_parsers\<close> turns source text into the root node of a tree,
  or raises. \<^verbatim>\<open>_parse_with_tree_sitter\<close> catches every exception raised in its body.
\<close>

type_synonym parser = "string \<Rightarrow> exn + node"

definition parse_with_tree_sitter ::
  "(string \<Rightarrow> parser option) \<Rightarrow> string \<Rightarrow> string \<Rightarrow> string \<Rightarrow> parse_result" where
  "parse_with_tree_sitter language_parsers file_path language source_code =
     (let failed = (\<lambda>e. Error file_path (''Tree-sitter parsing failed: '' @ str_exn e)) in
      case language_parsers language of
        None \<Rightarrow> failed (KeyError language)
      | Some parser \<Rightarrow>
          (case parser source_code of
             Inl e \<Rightarrow> failed e
           | Inr root_node \<Rightarrow>
               (case extract_code_elements root_node language file_path of
                  Inl e \<Rightarrow> failed e
                | Inr elements \<Rightarrow>
                    (case extract_relationships root_node language file_path of
                       Inl e \<Rightarrow> failed e
                     | Inr relationships \<Rightarrow>
                         (let file_analysis =
                                FileAnalysis
                                  \<lparr>fa_file_path := file_path,
                                   fa_language := language,
                                   fa_parsing_status := ''success'',
                                   fa_lines_of_code := length (splitlines source_code),
                                   fa_elements_found := length elements,
                                   fa_relationships_found := length relationships,
                                   fa_complexity_score :=
                                     calculate_complexity_score (Some root_node)\<rparr>
                          in Success file_path language file_analysis elements relationships
                               (fa_complexity_score file_analysis))))))"

definition parse_with_fallback ::
  "unicode \<Rightarrow> string \<Rightarrow> string \<Rightarrow> string \<Rightarrow> parse_result" where
  "parse_with_fallback u file_path language source_code =
     (let elements = extract_elements_with_regex u source_code language file_path in
      case extract_relationships_with_regex u source_code language file_path of
        Inl e \<Rightarrow> Error file_path (''Fallback parsing failed: '' @ str_exn e)
      | Inr relationships \<Rightarrow>
          (let file_analysis =
                 FileAnalysis
                   \<lparr>fa_file_path := file_path,
                    fa_language := language,
                    fa_parsing_status := ''success'',
                    fa_lines_of_code := length (splitlines source_code),
                    fa_elements_found := length elements,
                    fa_relationships_found := length relationships,
                    fa_complexity_score := calculate_complexity_with_regex u source_code\<rparr>
           in Success file_path language file_analysis elements relationships
                (fa_complexity_score file_analysis)))"

text \<open>
  \<^verbatim>\<open>parse_file\<close>. \<open>tree_sitter_available\<close> is the module's
  \<^verbatim>\<open>TREE_SITTER_AVAILABLE\<close>, \<open>language_parsers\<close> the agent's dictionary of parsers and
  \<open>read_file\<close> the file system: the text of a file, or the exception of \<^verbatim>\<open>open\<close>;
  \<open>u\<close> is the Unicode character database the regex fallback consults.
\<close>

definition parse_file ::
  "unicode \<Rightarrow> bool \<Rightarrow> (string \<Rightarrow> parser option) \<Rightarrow> (string \<Rightarrow> exn + string) \<Rightarrow> string
     \<Rightarrow> string \<Rightarrow> parse_result" where
  "parse_file u tree_sitter_available language_parsers read_file file_path language =
     (case read_file file_path of
        Inl e \<Rightarrow> Error file_path (str_exn e)
      | Inr source_code \<Rightarrow>
          if tree_sitter_available \<and> language_parsers language \<noteq> None
          then parse_with_tree_sitter language_parsers file_path language source_code
          else parse_with_fallback u file_path language source_code)"

section \<open>Nodes of a subtree\<close>

text \<open>
  Every node of a subtree, the root first; \<open>count_nodes tys n\<close> is the number of nodes
  anywhere in the subtree of \<open>n\<close> whose type is one of \<open>tys\<close>.
\<close>

fun subtree_nodes :: "node \<Rightarrow> node list"
  and subtree_nodes_list :: "node list \<Rightarrow> node list" where
  "subtree_nodes (Node ty fld tx sr er cs) = Node ty fld tx sr er cs # subtree_nodes_list cs"
| "subtree_nodes_list [] = []"
| "subtree_nodes_list (c # cs) = subtree_nodes c @ subtree_nodes_list cs"

definition count_nodes :: "string list \<Rightarrow> node \<Rightarrow> nat" where
  "count_nodes tys n = length (filter (\<lambda>m. ntype m \<in> set tys) (subtree_nodes n))"

definition python_weight :: "string \<Rightarrow> real" where
  "python_weight ty =
     (if ty \<in> set [''if_statement'', ''for_statement'', ''while_statement'', ''try_statement'']
      then 1
      else if ty = ''elif_clause'' then 0.5
      else if ty = ''except_clause'' then 1
      else if ty \<in> set [''and_expression'', ''or_expression''] then 1
      else 0)"

text \<open>
  The body of the Python function \<^verbatim>\<open>def f(a, b):\<close>, \<^verbatim>\<open>    if a and b: pass\<close> as the
  Python grammar of the parsing library gives it: one \<^verbatim>\<open>if_statement\<close> whose condition
  is a \<^verbatim>\<open>boolean_operator\<close> node with the fields \<^verbatim>\<open>left\<close>, \<^verbatim>\<open>operator\<close> and
  \<^verbatim>\<open>right\<close>. The grammar has no node type \<^verbatim>\<open>and_expression\<close> or \<^verbatim>\<open>or_expression\<close>.
\<close>

definition if_and_body :: node where
  "if_and_body =
     Node ''block'' (Some ''body'') ''if a and b: pass'' 1 1
       [Node ''if_statement'' None ''if a and b: pass'' 1 1
          [Node ''if'' None ''if'' 1 1 [],
           Node ''boolean_operator'' (Some ''condition'') ''a and b'' 1 1
             [Node ''identifier'' (Some ''left'') ''a'' 1 1 [],
              Node ''and'' (Some ''operator'') ''and'' 1 1 [],
              Node ''identifier'' (Some ''right'') ''b'' 1 1 []],
           Node '':'' None '':'' 1 1 [],
           Node ''block'' (Some ''consequence'') ''pass'' 1 1
             [Node ''pass_statement'' None ''pass'' 1 1
                [Node ''pass'' None ''pass'' 1 1 []]]]]"

definition if_and_function_tree :: node where
  "if_and_function_tree =
     Node ''module'' None (''def f(a, b):'' @ [CHR 0x0A] @ ''    if a and b: pass'') 0 1
       [Node ''function_definition'' None
          (''def f(a, b):'' @ [CHR 0x0A] @ ''    if a and b: pass'') 0 1
          [Node ''def'' None ''def'' 0 0 [],
           Node ''identifier'' (Some ''name'') ''f'' 0 0 [],
           Node ''parameters'' (Some ''parameters'') ''(a, b)'' 0 0
             [Node ''('' None ''('' 0 0 [],
              Node ''identifier'' None ''a'' 0 0 [],
              Node '','' None '','' 0 0 [],
              Node ''identifier'' None ''b'' 0 0 [],
              Node '')'' None '')'' 0 0 []],
           Node '':'' None '':'' 0 0 [],
           if_and_body]]"

section \<open>Sample inputs\<close>

text \<open>
  The tree of the Python text \<^verbatim>\<open>def f():\<close>, \<^verbatim>\<open>    g()\<close>: a function whose body
  is one call.
\<close>

definition call_in_function_tree :: node where
  "call_in_function_tree =
     Node ''module'' None (''def f():'' @ [CHR 0x0A] @ ''    g()'') 0 1
       [Node ''function_definition'' None (''def f():'' @ [CHR 0x0A] @ ''    g()'') 0 1
          [Node ''def'' None ''def'' 0 0 [],
           Node ''identifier'' (Some ''name'') ''f'' 0 0 [],
           Node ''parameters'' (Some ''parameters'') ''()'' 0 0
             [Node ''('' None ''('' 0 0 [], Node '')'' None '')'' 0 0 []],
           Node '':'' None '':'' 0 0 [],
           Node ''block'' (Some ''body'') ''g()'' 1 1
             [Node ''expression_statement'' None ''g()'' 1 1
                [Node ''call'' None ''g()'' 1 1
                   [Node ''identifier'' (Some ''function'') ''g'' 1 1 [],
                    Node ''argument_list'' (Some ''arguments'') ''()'' 1 1
                      [Node ''('' None ''('' 1 1 [], Node '')'' None '')'' 1 1 []]]]]]]"

text \<open>A function definition node without a \<^verbatim>\<open>body\<close> child.\<close>

definition bodyless_function :: node where
  "bodyless_function =
     Node ''function_definition'' None ''def f'' 0 0
       [Node ''def'' None ''def'' 0 0 [], Node ''identifier'' (Some ''name'') ''f'' 0 0 []]"

text \<open>Every element collected so far has a complexity of at least 1.\<close>

definition scored :: "element list \<times> nat \<Rightarrow> bool" where
  "scored st = (\<forall>e \<in> set (fst st). 1 \<le> el_complexity e)"

text \<open>The Python text \<^verbatim>\<open>def foo(a, b):\<close>, \<^verbatim>\<open>    pass\<close>.\<close>

definition def_foo_source :: string where
  "def_foo_source = ''def foo(a, b):'' @ [CHR 0x0A] @ ''    pass''"

text \<open>A registry whose Python parser raises on every input, and one without parsers.\<close>

definition raising_parsers :: "string \<Rightarrow> parser option" where
  "raising_parsers language =
     (if language = ''python'' then Some (\<lambda>source_code. Inl (Raised ''boom'')) else None)"

definition no_parsers :: "string \<Rightarrow> parser option" where
  "no_parsers language = None"

definition read_def_foo :: "string \<Rightarrow> exn + string" where
  "read_def_foo file_path = Inr def_foo_source"

text \<open>
  The tree of the Python text \<^verbatim>\<open>import os\<close>, \<^verbatim>\<open>from sys import path\<close>: an
  \<^verbatim>\<open>import_statement\<close> and an \<^verbatim>\<open>import_from_statement\<close>, each with its keyword
  tokens among its children.
\<close>

definition imports_source :: string where
  "imports_source = ''import os'' @ [CHR 0x0A] @ ''from sys import path''"

definition imports_tree :: node where
  "imports_tree =
     Node ''module'' None imports_source 0 1
       [Node ''import_statement'' None ''import os'' 0 0
          [Node ''import'' None ''import'' 0 0 [],
           Node ''dotted_name'' (Some ''name'') ''os'' 0 0
             [Node ''identifier'' None ''os'' 0 0 []]],
        Node ''import_from_statement'' None ''from sys import path'' 1 1
          [Node ''from'' None ''from'' 1 1 [],
           Node ''dotted_name'' (Some ''module_name'') ''sys'' 1 1
             [Node ''identifier'' None ''sys'' 1 1 []],
           Node ''import'' None ''import'' 1 1 [],
           Node ''dotted_name'' (Some ''name'') ''path'' 1 1
             [Node ''identifier'' None ''path'' 1 1 []]]]"

text \<open>The tree of the JavaScript text \<^verbatim>\<open>function f() {}\<close>.\<close>

definition js_function_tree :: node where
  "js_function_tree =
     Node ''program'' None ''function f() {}'' 0 0
       [Node ''function_declaration'' None ''function f() {}'' 0 0
          [Node ''function'' None ''function'' 0 0 [],
           Node ''identifier'' (Some ''name'') ''f'' 0 0 [],
           Node ''formal_parameters'' (Some ''parameters'') ''()'' 0 0
             [Node ''('' None ''('' 0 0 [], Node '')'' None '')'' 0 0 []],
           Node ''statement_block'' (Some ''body'') ''{}'' 0 0
             [Node ''{'' None ''{'' 0 0 [], Node ''}'' None ''}'' 0 0 []]]]"

text \<open>
  A relationship as the traversal can produce it when it is entered without a current
  element: a call without a source, or an import whose source is the file path.
\<close>

definition file_scoped :: "string \<Rightarrow> relationship \<Rightarrow> bool" where
  "file_scoped file_path r =
     (rel_type r = ''calls'' \<and> rel_source r = None
      \<or> rel_type r = ''imports'' \<and> rel_source r = Some file_path)"

definition imports_of :: "relationship list \<Rightarrow> relationship list" where
  "imports_of rels = filter (\<lambda>r. rel_type r = ''imports'') rels"

section \<open>Whole-word occurrences\<close>

text \<open>
  A whole-word occurrence of a keyword in a text: the keyword stands at position \<open>i\<close>,
  the character before it (if any) is not a word character and the character after it
  (if any) is not a word character, where the word characters are those of \<^verbatim>\<open>\w\<close>.
  Nothing in this depends on whether the position lies in a string literal or a comment.
\<close>

definition whole_word_at :: "unicode \<Rightarrow> string \<Rightarrow> string \<Rightarrow> nat \<Rightarrow> bool" where
  "whole_word_at u kw s i =
     (take (length kw) (drop i s) = kw
      \<and> (i = 0 \<or> \<not> cls_match u CWord (s ! (i - 1)))
      \<and> (length s \<le> i + length kw \<or> \<not> cls_match u CWord (s ! (i + length kw))))"

definition whole_word_occurrences :: "unicode \<Rightarrow> string \<Rightarrow> string \<Rightarrow> nat" where
  "whole_word_occurrences u kw s = length (filter (whole_word_at u kw s) [0..<length s])"

text \<open>
  A line with keywords in code, in a string literal and in a comment:
  \<^verbatim>\<open>if x: s = "a or b"  # for and iffy\<close>.
\<close>

definition commented_source :: string where
  "commented_source =
     ''if x: s = '' @ [CHR 0x22] @ ''a or b'' @ [CHR 0x22] @ ''  # for and iffy''"
text \<open>The text \<^verbatim>\<open>\xe9if\<close>: the letter e with acute accent, then \<^verbatim>\<open>if\<close>.\<close>

definition accented_if_source :: string where
  "accented_if_source = [CHR 0xE9] @ ''if''"

section \<open>The complexity scorer counts nodes\<close>

lemma count_complexity_constructs_weight:
  "count_complexity_constructs n c =
     c + sum_list (map (\<lambda>m. python_weight (ntype m)) (subtree_nodes n))"
  "count_complexity_constructs_children ns c =
     c + sum_list (map (\<lambda>m. python_weight (ntype m)) (subtree_nodes_list ns))"
  by (induction n c and ns c
        rule: count_complexity_constructs_count_complexity_constructs_children.induct)
     (simp_all add: python_weight_def)

lemma python_weight_counts:
  "sum_list (map (\<lambda>m. python_weight (ntype m)) ms) =
     real (length (filter (\<lambda>m. ntype m \<in> set [''if_statement'', ''for_statement'',
                                  ''while_statement'', ''try_statement'']) ms))
     + 0.5 * real (length (filter (\<lambda>m. ntype m \<in> set [''elif_clause'']) ms))
     + real (length (filter (\<lambda>m. ntype m \<in> set [''except_clause'']) ms))
     + real (length (filter (\<lambda>m. ntype m \<in> set [''and_expression'', ''or_expression'']) ms))"
  by (induction ms) (simp_all add: python_weight_def)

lemma calculate_python_complexity_formula:
  "calculate_python_complexity (Some body) =
     1 + 1 * real (count_nodes [''if_statement'', ''for_statement'', ''while_statement'',
                                 ''try_statement''] body)
       + 0.5 * real (count_nodes [''elif_clause''] body)
       + 1 * real (count_nodes [''except_clause''] body)
       + 1 * real (count_nodes [''and_expression'', ''or_expression''] body)"
  by (simp add: calculate_python_complexity_def count_complexity_constructs_weight
      python_weight_counts count_nodes_def)

text \<open>
  C1 at the function \<^verbatim>\<open>def f(a, b):\<close>, \<^verbatim>\<open>    if a and b: pass\<close>, whose body has
  exactly one if statement and exactly one and-expression: the scorer returns 2.0, not
  3.0. The scorer adds 1.0 for the node types \<^verbatim>\<open>and_expression\<close> and
  \<^verbatim>\<open>or_expression\<close>; the and-expression of the body is a \<^verbatim>\<open>boolean_operator\<close> node,
  which the scorer does not name, so it is not counted.
\<close>

theorem and_expression_not_counted:
  "calculate_python_complexity (Some if_and_body) = 2
   \<and> count_nodes [''if_statement''] if_and_body = 1
   \<and> count_nodes [''boolean_operator''] if_and_body = 1
   \<and> count_nodes [''and_expression'', ''or_expression''] if_and_body = 0
   \<and> child_by_field_name (hd (children if_and_function_tree)) ''body'' = Some if_and_body
   \<and> (case extract_code_elements if_and_function_tree ''python'' ''f.py'' of
         Inl x \<Rightarrow> False
       | Inr es \<Rightarrow> map (\<lambda>e. (el_type e, el_name e, el_complexity e)) es =
                    [(''function'', ''f'', 2)])"
  by code_simp

section \<open>Complexity of extracted elements\<close>

lemma python_weight_nonneg: "0 \<le> python_weight ty"
  by (simp add: python_weight_def)

lemma python_weight_sum_nonneg: "0 \<le> sum_list (map (\<lambda>m. python_weight (ntype m)) ms)"
  by (induction ms) (simp_all add: python_weight_nonneg)

lemma calculate_python_complexity_ge_1: "1 \<le> calculate_python_complexity node"
  by (cases node)
     (simp_all add: calculate_python_complexity_def count_complexity_constructs_weight
        python_weight_sum_nonneg)

lemma count_js_complexity_ge:
  "c \<le> count_js_complexity n c"
  "c \<le> count_js_complexity_children ns c"
proof (induction n c and ns c rule: count_js_complexity_count_js_complexity_children.induct)
  case (1 ty fld tx sr er cs complexity)
  let ?c' = "if ty \<in> set [''if_statement'', ''for_statement'', ''while_statement'', ''switch_statement'']
        then complexity + 1
        else if ty = ''case_clause'' then complexity + 0.5
        else if ty \<in> set [''binary_expression'', ''logical_expression''] then complexity + 1
        else complexity"
  have "complexity \<le> ?c'" by simp
  also have "?c' \<le> count_js_complexity_children cs ?c'" by (rule "1.IH")
  finally show ?case by simp
next
  case (2 complexity)
  show ?case by simp
next
  case (3 c cs complexity)
  have "complexity \<le> count_js_complexity c complexity" by (rule "3.IH"(1))
  also have "\<dots> \<le> count_js_complexity_children cs (count_js_complexity c complexity)"
    by (rule "3.IH"(2))
  finally show ?case by simp
qed

lemma calculate_js_complexity_ge_1: "1 \<le> calculate_js_complexity node"
  by (cases node) (simp_all add: calculate_js_complexity_def count_js_complexity_ge)

lemma extract_python_function_complexity:
  "case extract_python_function node file_path i of
     Inl x \<Rightarrow> True
   | Inr e \<Rightarrow> el_complexity e = calculate_python_complexity (child_by_field_name node ''body'')"
  by (simp add: extract_python_function_def Let_def split: sum.splits)

lemma extract_python_class_complexity:
  "case extract_python_class node file_path i of
     Inl x \<Rightarrow> True
   | Inr e \<Rightarrow> el_complexity e = calculate_python_complexity (child_by_field_name node ''body'')"
  by (simp add: extract_python_class_def Let_def split: sum.splits)

lemma extract_js_function_complexity:
  "el_complexity (extract_js_function node file_path i) =
     calculate_js_complexity (child_by_field_name node ''body'')"
  by (simp add: extract_js_function_def Let_def)

lemma extract_variable_class_complexity:
  "el_complexity (extract_python_variable node file_path i) = 1"
  "el_complexity (extract_js_class node file_path i) = 1"
  "el_complexity (extract_js_variable node file_path i) = 1"
  by (simp_all add: extract_python_variable_def extract_js_class_def extract_js_variable_def
      Let_def)

lemma traverse_tree_visit_scored:
  assumes "traverse_tree_visit language file_path node st = Inr st'" and "scored st"
  shows "scored st'"
proof -
  obtain elements n where st: "st = (elements, n)" by (cases st)
  have f: "1 \<le> el_complexity e" if "extract_python_function node file_path n = Inr e" for e
    using extract_python_function_complexity [of node file_path n] that
    by (simp add: calculate_python_complexity_ge_1)
  have c: "1 \<le> el_complexity e" if "extract_python_class node file_path n = Inr e" for e
    using extract_python_class_complexity [of node file_path n] that
    by (simp add: calculate_python_complexity_ge_1)
  have old: "\<forall>e \<in> set elements. 1 \<le> el_complexity e"
    using assms(2) by (simp add: st scored_def)
  have step: "scored (elements @ [e], Suc n)" if "1 \<le> el_complexity e" for e
    using old that by (simp add: scored_def)
  have same: "scored (elements, n)" using old by (simp add: scored_def)
  consider (py) "language = ''python''"
    | (js) "language \<noteq> ''python''" "language = ''javascript''"
    | (other) "language \<noteq> ''python''" "language \<noteq> ''javascript''"
    by blast
  then show ?thesis
  proof cases
    case py
    consider (func) "ntype node = ''function_definition''"
      | (cls) "ntype node = ''class_definition''"
      | (var) "ntype node = ''assignment''"
      | (none) "ntype node \<noteq> ''function_definition''" "ntype node \<noteq> ''class_definition''"
          "ntype node \<noteq> ''assignment''"
      by blast
    then show ?thesis
    proof cases
      case func
      with assms(1) py obtain e where "extract_python_function node file_path n = Inr e"
        and "st' = (elements @ [e], Suc n)"
        by (auto simp: st traverse_tree_visit_def split: sum.splits)
      then show ?thesis using step f by simp
    next
      case cls
      with assms(1) py obtain e where "extract_python_class node file_path n = Inr e"
        and "st' = (elements @ [e], Suc n)"
        by (auto simp: st traverse_tree_visit_def split: sum.splits)
      then show ?thesis using step c by simp
    next
      case var
      with assms(1) py
      have "st' = (elements @ [extract_python_variable node file_path n], Suc n)"
        by (auto simp: st traverse_tree_visit_def)
      then show ?thesis using step by (simp add: extract_variable_class_complexity)
    next
      case none
      with assms(1) py have "st' = (elements, n)"
        by (auto simp: st traverse_tree_visit_def)
      then show ?thesis using same by simp
    qed
  next
    case js
    consider (func) "ntype node = ''function_declaration''"
      | (cls) "ntype node = ''class_declaration''"
      | (var) "ntype node = ''variable_declaration''"
      | (none) "ntype node \<noteq> ''function_declaration''" "ntype node \<noteq> ''class_declaration''"
          "ntype node \<noteq> ''variable_declaration''"
      by blast
    then show ?thesis
    proof cases
      case func
      with assms(1) js
      have "st' = (elements @ [extract_js_function node file_path n], Suc n)"
        by (auto simp: st traverse_tree_visit_def)
      then show ?thesis
        using step by (simp add: extract_js_function_complexity calculate_js_complexity_ge_1)
    next
      case cls
      with assms(1) js
      have "st' = (elements @ [extract_js_class node file_path n], Suc n)"
        by (auto simp: st traverse_tree_visit_def)
      then show ?thesis using step by (simp add: extract_variable_class_complexity)
    next
      case var
      with assms(1) js
      have "st' = (elements @ [extract_js_variable node file_path n], Suc n)"
        by (auto simp: st traverse_tree_visit_def)
      then show ?thesis using step by (simp add: extract_variable_class_complexity)
    next
      case none
      with assms(1) js have "st' = (elements, n)"
        by (auto simp: st traverse_tree_visit_def)
      then show ?thesis using same by simp
    qed
  next
    case other
    with assms(1) have "st' = (elements, n)"
      by (auto simp: st traverse_tree_visit_def)
    then show ?thesis using same by simp
  qed
qed

lemma traverse_tree_scored:
  "traverse_tree language file_path n st = Inr st' \<Longrightarrow> scored st \<Longrightarrow> scored st'"
  "traverse_tree_children language file_path ns st = Inr st' \<Longrightarrow> scored st \<Longrightarrow> scored st'"
proof (induction language file_path n st and language file_path ns st
        arbitrary: st' and st' rule: traverse_tree_traverse_tree_children.induct)
  case (1 language file_path ty fld tx sr er cs st)
  from "1.prems"(1) obtain st1
    where v: "traverse_tree_visit language file_path (Node ty fld tx sr er cs) st = Inr st1"
      and k: "traverse_tree_children language file_path cs st1 = Inr st'"
    by (auto split: sum.splits)
  from traverse_tree_visit_scored [OF v "1.prems"(2)] have "scored st1" .
  from "1.IH" [OF v k this] show ?case .
next
  case (2 language file_path st)
  then show ?case by simp
next
  case (3 language file_path c cs st)
  from "3.prems"(1) obtain st1
    where v: "traverse_tree language file_path c st = Inr st1"
      and k: "traverse_tree_children language file_path cs st1 = Inr st'"
    by (auto split: sum.splits)
  from "3.IH"(1) [OF v "3.prems"(2)] have "scored st1" .
  from "3.IH"(2) [OF v k this] show ?case .
qed

lemma regex_elements_complexity:
  "\<forall>e \<in> set els. el_complexity e = 1 \<Longrightarrow>
     \<forall>e \<in> set (append_regex_elements prefix ty stripped return_type file_path ms els).
        el_complexity e = 1"
proof (induction ms arbitrary: els)
  case Nil
  then show ?case by (simp add: append_regex_elements_def)
next
  case (Cons m ms)
  let ?e = "regex_element prefix ty stripped return_type file_path m els"
  have "el_complexity ?e = 1" by (simp add: regex_element_def)
  with Cons.prems have "\<forall>e \<in> set (els @ [?e]). el_complexity e = 1" by simp
  from Cons.IH [OF this] show ?case by (simp add: append_regex_elements_def)
qed

lemma regex_elements_all_one:
  "\<forall>e \<in> set (extract_elements_with_regex u source_code language file_path). el_complexity e = 1"
proof -
  have two: "\<forall>e \<in> set (append_regex_elements p1 t1 s1 r1 file_path ms1
               (append_regex_elements p2 t2 s2 r2 file_path ms2 [])). el_complexity e = 1"
    for p1 t1 s1 r1 ms1 p2 t2 s2 r2 ms2
    by (rule regex_elements_complexity, rule regex_elements_complexity) simp
  consider (py) "language = ''python''"
    | (js) "language \<noteq> ''python''" "language = ''javascript''"
    | (other) "language \<noteq> ''python''" "language \<noteq> ''javascript''"
    by blast
  then show ?thesis
  proof cases
    case py
    then show ?thesis by (simp add: extract_elements_with_regex_def two)
  next
    case js
    then show ?thesis by (simp add: extract_elements_with_regex_def two)
  next
    case other
    then show ?thesis by (simp add: extract_elements_with_regex_def)
  qed
qed

text \<open>
  C9. Every element the structured extractor returns and every element the regex extractor
  returns has a complexity of at least 1.0; the scorers return exactly 1.0 when there is
  no body, so a function or class node without a body child gets complexity 1.0.
\<close>

theorem element_complexity_at_least_one:
  "(extract_code_elements tree_node language file_path = Inr elements \<longrightarrow>
      (\<forall>e \<in> set elements. 1 \<le> el_complexity e))
   \<and> (\<forall>e \<in> set (extract_elements_with_regex u source_code language file_path).
        1 \<le> el_complexity e)
   \<and> calculate_python_complexity None = 1 \<and> calculate_js_complexity None = 1
   \<and> (child_by_field_name node ''body'' = None \<and>
        extract_python_function node file_path i = Inr e \<longrightarrow> el_complexity e = 1)
   \<and> (child_by_field_name node ''body'' = None \<and>
        extract_python_class node file_path i = Inr e \<longrightarrow> el_complexity e = 1)
   \<and> (child_by_field_name node ''body'' = None \<longrightarrow>
        el_complexity (extract_js_function node file_path i) = 1)"
proof -
  have structured: "\<forall>e \<in> set elements. 1 \<le> el_complexity e"
    if "extract_code_elements tree_node language file_path = Inr elements"
  proof -
    from that obtain n
      where "traverse_tree language file_path tree_node ([], 0) = Inr (elements, n)"
      by (auto simp: extract_code_elements_def split: sum.splits)
    from traverse_tree_scored(1) [OF this] show ?thesis by (simp add: scored_def)
  qed
  have regex: "\<forall>e \<in> set (extract_elements_with_regex u source_code language file_path).
        1 \<le> el_complexity e"
    using regex_elements_all_one [of u source_code language file_path] by simp
  have none: "calculate_python_complexity None = 1" "calculate_js_complexity None = 1"
    by (simp_all add: calculate_python_complexity_def calculate_js_complexity_def)
  have func: "el_complexity e = 1"
    if "child_by_field_name node ''body'' = None"
      "extract_python_function node file_path i = Inr e"
    using extract_python_function_complexity [of node file_path i] that by (simp add: none)
  have cls: "el_complexity e = 1"
    if "child_by_field_name node ''body'' = None"
      "extract_python_class node file_path i = Inr e"
    using extract_python_class_complexity [of node file_path i] that by (simp add: none)
  have js: "el_complexity (extract_js_function node file_path i) = 1"
    if "child_by_field_name node ''body'' = None"
    using that by (simp add: extract_js_function_complexity none)
  from structured regex none func cls js show ?thesis by blast
qed

theorem element_complexity_at_least_one_witness:
  "(\<exists>es. extract_code_elements call_in_function_tree ''python'' ''f.py'' = Inr es \<and> es \<noteq> []
       \<and> (\<forall>e \<in> set es. 1 \<le> el_complexity e))
   \<and> (\<exists>e. child_by_field_name bodyless_function ''body'' = None
       \<and> extract_python_function bodyless_function ''f.py'' 0 = Inr e \<and> el_complexity e = 1)"
proof -
  have "case extract_code_elements call_in_function_tree ''python'' ''f.py'' of
          Inl x \<Rightarrow> False | Inr es \<Rightarrow> es \<noteq> []"
    by code_simp
  then obtain es
    where es: "extract_code_elements call_in_function_tree ''python'' ''f.py'' = Inr es"
      and ne: "es \<noteq> []"
    by (auto split: sum.splits)
  have nobody: "child_by_field_name bodyless_function ''body'' = None"
    by code_simp
  have "case extract_python_function bodyless_function ''f.py'' 0 of
          Inl x \<Rightarrow> False | Inr e \<Rightarrow> True"
    by code_simp
  then obtain e where e: "extract_python_function bodyless_function ''f.py'' 0 = Inr e"
    by (auto split: sum.splits)
  note inst = element_complexity_at_least_one
    [of call_in_function_tree "''python''" "''f.py''" es _ "[]" bodyless_function 0 e]
  from inst es have "\<forall>e \<in> set es. 1 \<le> el_complexity e" by blast
  moreover from inst nobody e have "el_complexity e = 1" by blast
  ultimately show ?thesis using es ne nobody e by blast
qed

section \<open>Regex fallback on a function definition\<close>

text \<open>
  C8. The regex extractor applied to the Python text \<^verbatim>\<open>def foo(a, b):\<close> followed by
  an indented \<^verbatim>\<open>pass\<close> line returns exactly one element: a function named
  \<^verbatim>\<open>foo\<close> with start line 1 and end line 0.
\<close>

theorem regex_def_foo:
  "map (\<lambda>e. (el_type e, el_name e, el_start_line e, el_end_line e))
     (extract_elements_with_regex u (''def foo(a, b):'' @ [CHR 0x0A] @ ''    pass'') ''python'' file_path)
   = [(''function'', ''foo'', 1, 0)]"
  by code_simp

section \<open>Languages without extraction rules\<close>





section \<open>Parse failures and unsupported languages\<close>

lemma parse_with_tree_sitter_parser_raises:
  "language_parsers language = Some parser \<Longrightarrow> parser source_code = Inl e \<Longrightarrow>
     parse_with_tree_sitter language_parsers file_path language source_code =
       Error file_path (''Tree-sitter parsing failed: '' @ str_exn e)"
  by (simp add: parse_with_tree_sitter_def)

lemma parse_with_tree_sitter_extraction_raises:
  "language_parsers language = Some parser \<Longrightarrow> parser source_code = Inr root_node \<Longrightarrow>
     extract_code_elements root_node language file_path = Inl e \<or>
     (\<exists>els. extract_code_elements root_node language file_path = Inr els) \<and>
       extract_relationships root_node language file_path = Inl e \<Longrightarrow>
     parse_with_tree_sitter language_parsers file_path language source_code =
       Error file_path (''Tree-sitter parsing failed: '' @ str_exn e)"
  by (auto simp: parse_with_tree_sitter_def)

lemma parse_file_raising_parser:
  "parse_file u True raising_parsers read_def_foo ''foo.py'' ''python'' =
     Error ''foo.py'' ''Tree-sitter parsing failed: boom''"
  by (simp add: parse_file_def raising_parsers_def read_def_foo_def
      parse_with_tree_sitter_def)

lemma parse_with_fallback_def_foo:
  "\<exists>fa els rels c.
      parse_with_fallback u ''foo.py'' ''python'' def_foo_source =
        Success ''foo.py'' ''python'' fa els rels c \<and> length els = 1"
proof -
  have "case parse_with_fallback u ''foo.py'' ''python'' def_foo_source of
      Success p l fa els rels c \<Rightarrow> p = ''foo.py'' \<and> l = ''python'' \<and> length els = 1
    | Error p m \<Rightarrow> False"
    by code_simp
  then show ?thesis by (auto split: parse_result.splits)
qed

text \<open>
  C3 as stated fails: with a Python parser that raises, \<^verbatim>\<open>parse_file\<close> returns the
  error result, although the regex fallback on the same text succeeds with one element.
\<close>

theorem parse_failure_fallback_counterexample:
  "\<forall>u. parse_file u True raising_parsers read_def_foo ''foo.py'' ''python'' =
          Error ''foo.py'' ''Tree-sitter parsing failed: boom''
        \<and> (\<exists>fa els rels c.
              parse_with_fallback u ''foo.py'' ''python'' def_foo_source =
                Success ''foo.py'' ''python'' fa els rels c \<and> length els = 1)"
  using parse_file_raising_parser parse_with_fallback_def_foo by blast

text \<open>
  C3, amended. When the structured parser raises on a file, or an extractor raises on the
  tree it returned, \<^verbatim>\<open>parse_file\<close> does not run the regex extraction: it returns the
  error result for that file, with the text \<^verbatim>\<open>Tree-sitter parsing failed: \<close> followed by
  the exception's message. The regex extraction runs exactly when the parsing library is
  unavailable or the language has no parser.
\<close>

theorem parse_failure_is_reported:
  "(read_file file_path = Inr source_code \<and> tree_sitter_available \<and>
      language_parsers language = Some parser \<and>
      (parser source_code = Inl e \<or>
       (\<exists>root_node. parser source_code = Inr root_node \<and>
          (extract_code_elements root_node language file_path = Inl e \<or>
           (\<exists>els. extract_code_elements root_node language file_path = Inr els) \<and>
             extract_relationships root_node language file_path = Inl e)))
    \<longrightarrow> parse_file u tree_sitter_available language_parsers read_file file_path language =
          Error file_path (''Tree-sitter parsing failed: '' @ str_exn e))
   \<and> (read_file file_path = Inr source_code \<and>
        (\<not> tree_sitter_available \<or> language_parsers language = None)
      \<longrightarrow> parse_file u tree_sitter_available language_parsers read_file file_path language =
            parse_with_fallback u file_path language source_code)
   \<and> (read_file file_path = Inr source_code \<and>
        tree_sitter_available \<and> language_parsers language \<noteq> None
      \<longrightarrow> parse_file u tree_sitter_available language_parsers read_file file_path language =
            parse_with_tree_sitter language_parsers file_path language source_code)"
proof -
  have raises: "parse_file u tree_sitter_available language_parsers read_file file_path language =
          Error file_path (''Tree-sitter parsing failed: '' @ str_exn e)"
    if "read_file file_path = Inr source_code" "tree_sitter_available"
      "language_parsers language = Some parser"
      "parser source_code = Inl e \<or>
       (\<exists>root_node. parser source_code = Inr root_node \<and>
          (extract_code_elements root_node language file_path = Inl e \<or>
           (\<exists>els. extract_code_elements root_node language file_path = Inr els) \<and>
             extract_relationships root_node language file_path = Inl e))"
    using that
    by (auto simp: parse_file_def parse_with_tree_sitter_parser_raises
        parse_with_tree_sitter_extraction_raises)
  have fallback: "parse_file u tree_sitter_available language_parsers read_file file_path language =
           parse_with_fallback u file_path language source_code"
    if "read_file file_path = Inr source_code"
      "\<not> tree_sitter_available \<or> language_parsers language = None"
    using that by (auto simp: parse_file_def)
  have structured: "parse_file u tree_sitter_available language_parsers read_file file_path language =
           parse_with_tree_sitter language_parsers file_path language source_code"
    if "read_file file_path = Inr source_code" "tree_sitter_available"
      "language_parsers language \<noteq> None"
    using that by (auto simp: parse_file_def)
  from raises fallback structured show ?thesis by blast
qed

theorem parse_failure_is_reported_witness:
  "\<forall>u. read_def_foo ''foo.py'' = Inr def_foo_source
     \<and> raising_parsers ''python'' = Some (\<lambda>source_code. Inl (Raised ''boom''))
     \<and> parse_file u True raising_parsers read_def_foo ''foo.py'' ''python'' =
         Error ''foo.py'' (''Tree-sitter parsing failed: '' @ str_exn (Raised ''boom''))
     \<and> no_parsers ''python'' = None
     \<and> parse_file u True no_parsers read_def_foo ''foo.py'' ''python'' =
         parse_with_fallback u ''foo.py'' ''python'' def_foo_source"
proof
  fix u
  have r: "read_def_foo ''foo.py'' = Inr def_foo_source"
    by (simp add: read_def_foo_def)
  have p: "raising_parsers ''python'' = Some (\<lambda>source_code. Inl (Raised ''boom''))"
    by (simp add: raising_parsers_def)
  have n: "no_parsers ''python'' = None"
    by (simp add: no_parsers_def)
  have "parse_file u True raising_parsers read_def_foo ''foo.py'' ''python'' =
       Error ''foo.py'' (''Tree-sitter parsing failed: '' @ str_exn (Raised ''boom''))"
    using parse_failure_is_reported
      [of read_def_foo "''foo.py''" def_foo_source True raising_parsers "''python''"
          "\<lambda>source_code. Inl (Raised ''boom'')" "Raised ''boom''" u] r p
    by blast
  moreover have "parse_file u True no_parsers read_def_foo ''foo.py'' ''python'' =
       parse_with_fallback u ''foo.py'' ''python'' def_foo_source"
    using parse_failure_is_reported
      [of read_def_foo "''foo.py''" def_foo_source True no_parsers "''python''" _ _ u] r n
    by blast
  ultimately show "read_def_foo ''foo.py'' = Inr def_foo_source
     \<and> raising_parsers ''python'' = Some (\<lambda>source_code. Inl (Raised ''boom''))
     \<and> parse_file u True raising_parsers read_def_foo ''foo.py'' ''python'' =
         Error ''foo.py'' (''Tree-sitter parsing failed: '' @ str_exn (Raised ''boom''))
     \<and> no_parsers ''python'' = None
     \<and> parse_file u True no_parsers read_def_foo ''foo.py'' ''python'' =
         parse_with_fallback u ''foo.py'' ''python'' def_foo_source"
    using r p n by simp
qed

lemma parse_file_xyz:
  "\<exists>fa els rels c.
      parse_file u True no_parsers read_def_foo ''notes.xyz'' ''xyz'' =
        Success ''notes.xyz'' ''xyz'' fa els rels c
      \<and> fa_parsing_status fa = ''success'' \<and> fa_parsing_status fa \<noteq> ''unsupported''"
proof -
  have "case parse_file u True no_parsers read_def_foo ''notes.xyz'' ''xyz'' of
      Success p l fa els rels c \<Rightarrow>
        p = ''notes.xyz'' \<and> l = ''xyz'' \<and> fa_parsing_status fa = ''success''
        \<and> fa_parsing_status fa \<noteq> ''unsupported''
    | Error p m \<Rightarrow> False"
    by code_simp
  then show ?thesis by (auto split: parse_result.splits)
qed

text \<open>
  C5 as stated fails: for the language \<^verbatim>\<open>xyz\<close>, which has no parser and no regex
  rules, the parsing status of the returned \<^verbatim>\<open>FileAnalysis\<close> is \<^verbatim>\<open>success\<close>.
\<close>

theorem unsupported_status_counterexample:
  "\<forall>u. \<exists>fa els rels c.
      parse_file u True no_parsers read_def_foo ''notes.xyz'' ''xyz'' =
        Success ''notes.xyz'' ''xyz'' fa els rels c
      \<and> fa_parsing_status fa = ''success'' \<and> fa_parsing_status fa \<noteq> ''unsupported''"
  using parse_file_xyz by blast

text \<open>
  C5, amended. For a readable file whose language has no structured parser and is neither
  \<^verbatim>\<open>python\<close> nor \<^verbatim>\<open>javascript\<close> (the languages with regex rules), \<^verbatim>\<open>parse_file\<close>
  returns, without raising, a success result with no elements and no relationships whose
  \<^verbatim>\<open>FileAnalysis\<close> has parsing status \<^verbatim>\<open>success\<close>, an empty error message, zero
  elements found and zero relationships found.
\<close>

theorem unsupported_language_reported_as_success:
  "read_file file_path = Inr source_code \<and> language \<noteq> ''python'' \<and>
     language \<noteq> ''javascript'' \<and>
     (\<not> tree_sitter_available \<or> language_parsers language = None)
   \<longrightarrow> (\<exists>fa.
         parse_file u tree_sitter_available language_parsers read_file file_path language =
           Success file_path language fa [] [] (calculate_complexity_with_regex u source_code)
         \<and> fa_parsing_status fa = ''success'' \<and> fa_error_message fa = ''''
         \<and> fa_elements_found fa = 0 \<and> fa_relationships_found fa = 0)"
  by (auto simp: parse_file_def parse_with_fallback_def extract_elements_with_regex_def
      extract_relationships_with_regex_def FileAnalysis_def)

theorem unsupported_language_reported_as_success_witness:
  "\<forall>u. read_def_foo ''notes.xyz'' = Inr def_foo_source \<and> ''xyz'' \<noteq> ''python''
     \<and> ''xyz'' \<noteq> ''javascript'' \<and> no_parsers ''xyz'' = None
     \<and> (\<exists>fa.
           parse_file u True no_parsers read_def_foo ''notes.xyz'' ''xyz'' =
             Success ''notes.xyz'' ''xyz'' fa [] []
               (calculate_complexity_with_regex u def_foo_source)
           \<and> fa_parsing_status fa = ''success'' \<and> fa_error_message fa = ''''
           \<and> fa_elements_found fa = 0 \<and> fa_relationships_found fa = 0)"
proof
  fix u
  have r: "read_def_foo ''notes.xyz'' = Inr def_foo_source"
    by (simp add: read_def_foo_def)
  have n: "no_parsers ''xyz'' = None"
    by (simp add: no_parsers_def)
  have l: "''xyz'' \<noteq> ''python''" "''xyz'' \<noteq> ''javascript''"
    by simp_all
  from unsupported_language_reported_as_success
    [of read_def_foo "''notes.xyz''" def_foo_source "''xyz''" True no_parsers u] r n l
  have "\<exists>fa.
         parse_file u True no_parsers read_def_foo ''notes.xyz'' ''xyz'' =
           Success ''notes.xyz'' ''xyz'' fa [] [] (calculate_complexity_with_regex u def_foo_source)
         \<and> fa_parsing_status fa = ''success'' \<and> fa_error_message fa = ''''
         \<and> fa_elements_found fa = 0 \<and> fa_relationships_found fa = 0"
    by blast
  with r n l show "read_def_foo ''notes.xyz'' = Inr def_foo_source \<and> ''xyz'' \<noteq> ''python''
     \<and> ''xyz'' \<noteq> ''javascript'' \<and> no_parsers ''xyz'' = None
     \<and> (\<exists>fa.
           parse_file u True no_parsers read_def_foo ''notes.xyz'' ''xyz'' =
             Success ''notes.xyz'' ''xyz'' fa [] []
               (calculate_complexity_with_regex u def_foo_source)
           \<and> fa_parsing_status fa = ''success'' \<and> fa_error_message fa = ''''
           \<and> fa_elements_found fa = 0 \<and> fa_relationships_found fa = 0)"
    by blast
qed

section \<open>Regex complexity counts whole words\<close>

lemma rmatch_keyword_pattern:
  "rmatch u (keyword_pattern kw) ((b, r), g) =
     (if is_word_at u b \<noteq> is_word_at u r \<and> take (length kw) r = kw
         \<and> is_word_at u (rev kw @ b) \<noteq> is_word_at u (drop (length kw) r)
      then [((rev kw @ b, drop (length kw) r), g)] else [])"
  by (auto simp: keyword_pattern_def)

lemma is_word_at_keyword:
  assumes "kw \<noteq> []" "\<forall>c \<in> set kw. cls_match u CWord c"
  shows "is_word_at u (kw @ xs)" and "is_word_at u (rev kw @ ys)"
proof -
  from assms obtain c cs where kw: "kw = c # cs" by (cases kw) auto
  with assms show "is_word_at u (kw @ xs)" by (simp add: is_word_at_def)
  from assms obtain d ds where rkw: "rev kw = d # ds" by (cases "rev kw") auto
  then have "d \<in> set kw" by (metis list.set_intros(1) set_rev)
  with assms rkw show "is_word_at u (rev kw @ ys)" by (simp add: is_word_at_def)
qed

lemma keyword_match_iff:
  assumes "kw \<noteq> []" "\<forall>c \<in> set kw. cls_match u CWord c"
  shows "(is_word_at u b \<noteq> is_word_at u r \<and> take (length kw) r = kw
            \<and> is_word_at u (rev kw @ b) \<noteq> is_word_at u (drop (length kw) r))
         = whole_word_at u kw (rev b @ r) (length b)"
proof (cases "take (length kw) r = kw")
  case False
  have "take (length kw) (drop (length b) (rev b @ r)) = take (length kw) r" by simp
  with False show ?thesis by (simp add: whole_word_at_def)
next
  case True
  then have r: "r = kw @ drop (length kw) r" by (metis append_take_drop_id)
  have wr: "is_word_at u r" using is_word_at_keyword(1) [OF assms] r by metis
  have wk: "is_word_at u (rev kw @ b)" by (rule is_word_at_keyword(2) [OF assms])
  have before: "(\<not> is_word_at u b) =
      (length b = 0 \<or> \<not> cls_match u CWord ((rev b @ r) ! (length b - 1)))"
  proof (cases b)
    case Nil
    then show ?thesis by (simp add: is_word_at_def)
  next
    case (Cons c cs)
    then have "(rev b @ r) ! (length b - 1) = c"
      by (simp add: nth_append)
    with Cons show ?thesis by (simp add: is_word_at_def)
  qed
  have after: "(\<not> is_word_at u (drop (length kw) r)) =
      (length (rev b @ r) \<le> length b + length kw
       \<or> \<not> cls_match u CWord ((rev b @ r) ! (length b + length kw)))"
  proof (cases "drop (length kw) r")
    case Nil
    then show ?thesis by (simp add: is_word_at_def)
  next
    case (Cons c cs)
    then have len: "length kw < length r"
      by (metis drop_eq_Nil list.distinct(1) not_le)
    have "(rev b @ r) ! (length b + length kw) = r ! length kw"
      by (simp add: nth_append)
    also have "\<dots> = hd (drop (length kw) r)"
      using len by (simp add: hd_drop_conv_nth)
    finally show ?thesis using Cons len by (simp add: is_word_at_def)
  qed
  show ?thesis
    using True wr wk before after by (simp add: whole_word_at_def)
qed

lemma whole_word_at_no_overlap:
  assumes "\<forall>c \<in> set kw. cls_match u CWord c"
    and i: "whole_word_at u kw s i" and j: "whole_word_at u kw s j"
    and "i < j" "j < i + length kw"
  shows False
proof -
  let ?L = "length kw"
  from j have tk: "take ?L (drop j s) = kw" by (simp add: whole_word_at_def)
  have "length (take ?L (drop j s)) = min ?L (length s - j)" by simp
  with tk have "?L \<le> length s - j" by (metis min.cobounded2)
  moreover have "0 < ?L" using assms(4,5) by (cases kw) simp_all
  ultimately have lenj: "j + ?L \<le> length s" by linarith
  let ?t = "i + ?L - j"
  have t: "?t < ?L" using assms(4,5) by simp
  have "s ! (i + ?L) = drop j s ! ?t" using assms(4,5) lenj by simp
  also have "\<dots> = take ?L (drop j s) ! ?t" using t by simp
  also have "\<dots> = kw ! ?t" using tk by simp
  finally have "s ! (i + ?L) \<in> set kw" using t by simp
  with assms(1) have "cls_match u CWord (s ! (i + ?L))" by blast
  moreover from i have "length s \<le> i + ?L \<or> \<not> cls_match u CWord (s ! (i + ?L))"
    by (simp add: whole_word_at_def)
  ultimately show False using lenj assms(4) by simp
qed

lemma finditer_keyword_count:
  assumes "kw \<noteq> []" "\<forall>c \<in> set kw. cls_match u CWord c"
  shows "length (finditer_from u (keyword_pattern kw) b r) =
         length (filter (whole_word_at u kw (rev b @ r)) [length b..<length b + length r])"
proof (induction "length r" arbitrary: b r rule: less_induct)
  case less
  let ?p = "keyword_pattern kw"
  let ?s = "rev b @ r"
  let ?n = "length b"
  let ?L = "length kw"
  have rm: "rmatch u ?p ((b, r), \<lambda>n. None) =
      (if whole_word_at u kw ?s ?n then [((rev kw @ b, drop ?L r), \<lambda>n. None)] else [])"
    by (simp only: rmatch_keyword_pattern keyword_match_iff [OF assms])
  show ?case
  proof (cases "whole_word_at u kw ?s ?n")
    case False
    show ?thesis
    proof (cases r)
      case Nil
      then show ?thesis using rm False by (subst finditer_from.simps) simp
    next
      case (Cons c cs)
      have e1: "rev (c # b) @ cs = ?s" using Cons by simp
      have e2: "Suc ?n + length cs = ?n + length r" using Cons by simp
      have e3: "length (c # b) = Suc ?n" by simp
      have up: "[?n..<?n + length r] = ?n # [Suc ?n..<?n + length r]"
        by (rule upt_conv_Cons) (simp add: Cons)
      have "finditer_from u ?p b r = finditer_from u ?p (c # b) cs"
        using rm False Cons by (subst finditer_from.simps) simp
      then have "length (finditer_from u ?p b r) = length (finditer_from u ?p (c # b) cs)"
        by (rule arg_cong)
      also have "\<dots> = length (filter (whole_word_at u kw (rev (c # b) @ cs))
                    [length (c # b)..<length (c # b) + length cs])"
        by (rule less) (simp add: Cons)
      also have "\<dots> = length (filter (whole_word_at u kw ?s) [Suc ?n..<?n + length r])"
        by (simp only: e1 e3 e2)
      also have "\<dots> = length (filter (whole_word_at u kw ?s) [?n..<?n + length r])"
        using False by (simp only: up filter.simps if_False)
      finally show ?thesis .
    qed
  next
    case True
    have "take ?L (drop ?n ?s) = take ?L r" by simp
    with True have tk: "take ?L r = kw" by (simp add: whole_word_at_def)
    have Lpos: "0 < ?L" using assms(1) by simp
    have "length (take ?L r) = min ?L (length r)" by simp
    with tk have Lle: "?L \<le> length r" by (metis min.cobounded2)
    have "length (drop ?L r) = length r - ?L" by simp
    with Lpos Lle have shorter: "length (drop ?L r) < length r" by linarith
    have fi: "length (finditer_from u ?p b r) =
        Suc (length (finditer_from u ?p (rev kw @ b) (drop ?L r)))"
      using rm True shorter by (subst finditer_from.simps) simp
    have "rev (rev kw @ b) @ drop ?L r = rev b @ (take ?L r @ drop ?L r)"
      using tk by simp
    then have s': "rev (rev kw @ b) @ drop ?L r = ?s" by simp
    have e2: "?n + ?L + length (drop ?L r) = ?n + length r"
      using Lle by simp
    have e3: "length (rev kw @ b) = ?n + ?L" by simp
    have "length (finditer_from u ?p (rev kw @ b) (drop ?L r)) =
        length (filter (whole_word_at u kw (rev (rev kw @ b) @ drop ?L r))
                  [length (rev kw @ b)..<length (rev kw @ b) + length (drop ?L r)])"
      by (rule less) (rule shorter)
    then have IH: "length (finditer_from u ?p (rev kw @ b) (drop ?L r)) =
        length (filter (whole_word_at u kw ?s) [?n + ?L..<?n + length r])"
      by (simp only: s' e3 e2)
    have range: "[?n..<?n + length r] = ?n # ([Suc ?n..<?n + ?L] @ [?n + ?L..<?n + length r])"
    proof -
      have "[?n..<?n + length r] = [?n..<?n + ?L] @ [?n + ?L..<?n + length r]"
        using Lle by (metis le_add1 nat_add_left_cancel_le upt_add_eq_append add.commute
            le_iff_add add.assoc)
      moreover have "[?n..<?n + ?L] = ?n # [Suc ?n..<?n + ?L]"
        using Lpos by (simp add: upt_conv_Cons)
      ultimately show ?thesis by simp
    qed
    have none: "filter (whole_word_at u kw ?s) [Suc ?n..<?n + ?L] = []"
    proof -
      have "\<not> whole_word_at u kw ?s j" if "?n < j" "j < ?n + ?L" for j
        using whole_word_at_no_overlap [OF assms(2) True _ that] by blast
      then show ?thesis by (auto simp: filter_empty_conv)
    qed
    have "filter (whole_word_at u kw ?s) [?n..<?n + length r] =
        ?n # filter (whole_word_at u kw ?s) [?n + ?L..<?n + length r]"
      using True by (simp only: range filter.simps filter_append none if_True append_Nil)
    then have "length (filter (whole_word_at u kw ?s) [?n..<?n + length r]) =
        Suc (length (filter (whole_word_at u kw ?s) [?n + ?L..<?n + length r]))"
      by simp
    with fi IH show ?thesis by (simp only:)
  qed
qed

lemma findall_keyword_count:
  assumes "kw \<noteq> []" "\<forall>c \<in> set kw. cls_match u CWord c"
  shows "findall_count u (keyword_pattern kw) s = whole_word_occurrences u kw s"
  using finditer_keyword_count [OF assms, of "[]" s]
  by (simp add: findall_count_def finditer_def whole_word_occurrences_def)

text \<open>
  C7. For every source text, \<^verbatim>\<open>calculate_complexity_with_regex\<close> returns exactly 1.0
  plus the number of whole-word occurrences of \<^verbatim>\<open>if\<close>, \<^verbatim>\<open>for\<close>, \<^verbatim>\<open>while\<close>,
  \<^verbatim>\<open>try\<close>, \<^verbatim>\<open>and\<close> and \<^verbatim>\<open>or\<close> anywhere in the text; the count reads the raw
  text, so an occurrence inside a string literal or a comment counts like any other.
\<close>

theorem regex_complexity_counts_keywords:
  "calculate_complexity_with_regex u source_code =
     1 + real (sum_list (map (\<lambda>kw. whole_word_occurrences u kw source_code)
                 [''if'', ''for'', ''while'', ''try'', ''and'', ''or'']))"
proof -
  have "findall_count u (keyword_pattern kw) source_code = whole_word_occurrences u kw source_code"
    if "kw \<in> set [''if'', ''for'', ''while'', ''try'', ''and'', ''or'']" for kw
    using that by (intro findall_keyword_count) (auto simp: cls_match.simps is_ascii_def)
  then show ?thesis by (simp add: calculate_complexity_with_regex_def Let_def)
qed

lemma upt_accented_if_source: "[0..<length accented_if_source] = [0, 1, 2]"
  by code_simp

lemma whole_word_after_letter:
  "whole_word_occurrences u ''if'' accented_if_source =
     (if uni_word u (CHR 0xE9) then 0 else 1)"
  "whole_word_occurrences u ''for'' accented_if_source = 0"
  "whole_word_occurrences u ''while'' accented_if_source = 0"
  "whole_word_occurrences u ''try'' accented_if_source = 0"
  "whole_word_occurrences u ''and'' accented_if_source = 0"
  "whole_word_occurrences u ''or'' accented_if_source = 0"
  unfolding whole_word_occurrences_def upt_accented_if_source
  by (simp_all add: whole_word_at_def cls_match.simps is_ascii_def accented_if_source_def)

theorem regex_complexity_counts_keywords_witness:
  "\<forall>u. calculate_complexity_with_regex u commented_source =
         1 + real (sum_list (map (\<lambda>kw. whole_word_occurrences u kw commented_source)
                     [''if'', ''for'', ''while'', ''try'', ''and'', ''or'']))
       \<and> calculate_complexity_with_regex u commented_source = 5
       \<and> calculate_complexity_with_regex u accented_if_source =
           (if uni_word u (CHR 0xE9) then 1 else 2)"
proof
  fix u
  have five: "calculate_complexity_with_regex u commented_source = 5"
    by code_simp
  have "calculate_complexity_with_regex u accented_if_source =
      (if uni_word u (CHR 0xE9) then 1 else 2)"
    using regex_complexity_counts_keywords [of u accented_if_source]
    by (simp add: whole_word_after_letter)
  with five regex_complexity_counts_keywords [of u commented_source]
  show "calculate_complexity_with_regex u commented_source =
         1 + real (sum_list (map (\<lambda>kw. whole_word_occurrences u kw commented_source)
                     [''if'', ''for'', ''while'', ''try'', ''and'', ''or'']))
       \<and> calculate_complexity_with_regex u commented_source = 5
       \<and> calculate_complexity_with_regex u accented_if_source =
           (if uni_word u (CHR 0xE9) then 1 else 2)"
    by simp
qed

section \<open>Sources of relationships\<close>

lemma traverse_for_relationships_visit_file_scoped:
  assumes "traverse_for_relationships_visit language file_path node None rels = Inr rels'"
    and "\<forall>r \<in> set rels. file_scoped file_path r"
  shows "\<forall>r \<in> set rels'. file_scoped file_path r"
  using assms
  by (auto simp: traverse_for_relationships_visit_def file_scoped_def Let_def
      split: if_splits sum.splits)

lemma traverse_for_relationships_file_scoped:
  "traverse_for_relationships language file_path n cur rels = Inr rels' \<Longrightarrow> cur = None \<Longrightarrow>
     \<forall>r \<in> set rels. file_scoped file_path r \<Longrightarrow> \<forall>r \<in> set rels'. file_scoped file_path r"
  "traverse_for_relationships_children language file_path ns cur rels = Inr rels' \<Longrightarrow>
     cur = None \<Longrightarrow>
     \<forall>r \<in> set rels. file_scoped file_path r \<Longrightarrow> \<forall>r \<in> set rels'. file_scoped file_path r"
proof (induction language file_path n cur rels and language file_path ns cur rels
       arbitrary: rels' and rels'
       rule: traverse_for_relationships_traverse_for_relationships_children.induct)
  case (1 language file_path ty fld tx sr er cs cur rels)
  from "1.prems"(1) obtain rels1
    where v: "traverse_for_relationships_visit language file_path (Node ty fld tx sr er cs)
                cur rels = Inr rels1"
      and k: "traverse_for_relationships_children language file_path cs cur rels1 = Inr rels'"
    by (auto split: sum.splits)
  from traverse_for_relationships_visit_file_scoped [OF v [unfolded "1.prems"(2)] "1.prems"(3)]
  have "\<forall>r \<in> set rels1. file_scoped file_path r" .
  from "1.IH" [OF v k "1.prems"(2) this] show ?case .
next
  case (2 language file_path cur rels)
  then show ?case by simp
next
  case (3 language file_path c cs cur rels)
  from "3.prems"(1) obtain rels1
    where v: "traverse_for_relationships language file_path c cur rels = Inr rels1"
      and k: "traverse_for_relationships_children language file_path cs cur rels1 = Inr rels'"
    by (auto split: sum.splits)
  from "3.IH"(1) [OF v "3.prems"(2) "3.prems"(3)]
  have "\<forall>r \<in> set rels1. file_scoped file_path r" .
  from "3.IH"(2) [OF v k "3.prems"(2) this] show ?case .
qed

lemma extract_relationships_file_scoped:
  "extract_relationships tree_node language file_path = Inr rels \<Longrightarrow>
     \<forall>r \<in> set rels. file_scoped file_path r"
  using traverse_for_relationships_file_scoped(1) [of language file_path tree_node None "[]" rels]
  by (simp add: extract_relationships_def)

lemma traverse_for_relationships_visit_imports:
  assumes "traverse_for_relationships_visit ''python'' file_path node cur rels = Inr rels'"
  shows "length (imports_of rels') \<le>
           length (imports_of rels) + (if ntype node = ''import_from_statement'' then 1 else 0)"
  using assms
  by (auto simp: traverse_for_relationships_visit_def imports_of_def
      split: if_splits sum.splits)

lemma traverse_for_relationships_imports:
  "traverse_for_relationships language file_path n cur rels = Inr rels' \<Longrightarrow>
     language = ''python'' \<Longrightarrow>
     length (imports_of rels') \<le>
       length (imports_of rels) + count_nodes [''import_from_statement''] n"
  "traverse_for_relationships_children language file_path ns cur rels = Inr rels' \<Longrightarrow>
     language = ''python'' \<Longrightarrow>
     length (imports_of rels') \<le>
       length (imports_of rels)
       + length (filter (\<lambda>m. ntype m \<in> set [''import_from_statement'']) (subtree_nodes_list ns))"
proof (induction language file_path n cur rels and language file_path ns cur rels
       arbitrary: rels' and rels'
       rule: traverse_for_relationships_traverse_for_relationships_children.induct)
  case (1 language file_path ty fld tx sr er cs cur rels)
  let ?node = "Node ty fld tx sr er cs"
  from "1.prems"(1) obtain rels1
    where v: "traverse_for_relationships_visit language file_path ?node cur rels = Inr rels1"
      and k: "traverse_for_relationships_children language file_path cs cur rels1 = Inr rels'"
    by (auto split: sum.splits)
  from traverse_for_relationships_visit_imports [OF v [unfolded "1.prems"(2)]]
  have "length (imports_of rels1) \<le>
      length (imports_of rels) + (if ty = ''import_from_statement'' then 1 else 0)"
    by simp
  moreover from "1.IH" [OF v k "1.prems"(2)]
  have "length (imports_of rels') \<le> length (imports_of rels1)
       + length (filter (\<lambda>m. ntype m \<in> set [''import_from_statement'']) (subtree_nodes_list cs))" .
  ultimately show ?case by (auto simp: count_nodes_def split: if_splits)
next
  case (2 language file_path cur rels)
  then show ?case by simp
next
  case (3 language file_path c cs cur rels)
  from "3.prems"(1) obtain rels1
    where v: "traverse_for_relationships language file_path c cur rels = Inr rels1"
      and k: "traverse_for_relationships_children language file_path cs cur rels1 = Inr rels'"
    by (auto split: sum.splits)
  from "3.IH"(1) [OF v "3.prems"(2)] "3.IH"(2) [OF v k "3.prems"(2)] show ?case
    by (simp add: count_nodes_def)
qed

lemma python_imports_bounded:
  "extract_relationships tree_node ''python'' file_path = Inr rels \<Longrightarrow>
     length (imports_of rels) \<le> count_nodes [''import_from_statement''] tree_node"
  using traverse_for_relationships_imports(1) [of "''python''" file_path tree_node None "[]" rels]
  by (simp add: extract_relationships_def imports_of_def)

text \<open>
  C2 at the two-line text \<^verbatim>\<open>import os\<close>, \<^verbatim>\<open>from sys import path\<close>: the regex
  extractor returns the two import relationships with targets \<^verbatim>\<open>os\<close> and \<^verbatim>\<open>sys\<close>
  and confidence 0.9, while the structured extractor returns none on the tree of the same
  text: no branch handles an \<^verbatim>\<open>import_statement\<close> node, and the first child of the
  \<^verbatim>\<open>import_from_statement\<close> node is the \<^verbatim>\<open>from\<close> token.
\<close>

theorem python_imports_structured_vs_regex:
  "extract_relationships_with_regex u imports_source ''python'' ''m.py'' =
     Inr [\<lparr>rel_type = ''imports'', rel_source = Some ''m.py'', rel_target = ''os'',
            rel_line = 1, rel_context = ''import os'', rel_confidence = 0.9,
            rel_is_direct = True\<rparr>,
          \<lparr>rel_type = ''imports'', rel_source = Some ''m.py'', rel_target = ''sys'',
            rel_line = 2, rel_context = ''from sys import path'', rel_confidence = 0.9,
            rel_is_direct = True\<rparr>]
   \<and> extract_relationships imports_tree ''python'' ''m.py'' = Inr []
   \<and> count_nodes [''import_from_statement''] imports_tree = 1"
  by code_simp

text \<open>
  C4 at the tree of \<^verbatim>\<open>def f():\<close>, \<^verbatim>\<open>    g()\<close>: the call on line 2 lies inside the
  function element \<^verbatim>\<open>func_0_f.py\<close> (lines 1 to 2), and its relationship has no source.
\<close>

theorem call_in_function_has_no_source:
  "extract_relationships call_in_function_tree ''python'' ''f.py'' =
     Inr [\<lparr>rel_type = ''calls'', rel_source = None, rel_target = ''g'', rel_line = 2,
            rel_context = ''g()'', rel_confidence = 0.8, rel_is_direct = True\<rparr>]
   \<and> (case extract_code_elements call_in_function_tree ''python'' ''f.py'' of
         Inl x \<Rightarrow> False
       | Inr es \<Rightarrow>
           map (\<lambda>e. (el_id e, el_type e, el_name e, el_start_line e, el_end_line e)) es =
             [(''func_0_f.py'', ''function'', ''f'', 1, 2)])"
  by code_simp

section \<open>File-level complexity\<close>

lemma analyze_node_formula:
  "analyze_node n (t, c) =
     (t + sum_list (map (\<lambda>m. calculate_python_complexity (child_by_field_name m ''body''))
            (filter (\<lambda>m. ntype m \<in> set [''function_definition'', ''class_definition''])
               (subtree_nodes n))),
      c + count_nodes [''function_definition'', ''class_definition'', ''method_definition''] n)"
  "analyze_node_children ns (t, c) =
     (t + sum_list (map (\<lambda>m. calculate_python_complexity (child_by_field_name m ''body''))
            (filter (\<lambda>m. ntype m \<in> set [''function_definition'', ''class_definition''])
               (subtree_nodes_list ns))),
      c + length (filter (\<lambda>m. ntype m \<in> set [''function_definition'', ''class_definition'',
                                  ''method_definition'']) (subtree_nodes_list ns)))"
  by (induction n "(t, c)" and ns "(t, c)" arbitrary: t c and t c
        rule: analyze_node_analyze_node_children.induct)
     (simp_all add: count_nodes_def)

lemma calculate_complexity_score_formula:
  "calculate_complexity_score (Some tree_root) =
     sum_list (map (\<lambda>m. calculate_python_complexity (child_by_field_name m ''body''))
            (filter (\<lambda>m. ntype m \<in> set [''function_definition'', ''class_definition''])
               (subtree_nodes tree_root)))
     / real (max (count_nodes [''function_definition'', ''class_definition'',
                    ''method_definition''] tree_root) 1)"
  by (simp add: calculate_complexity_score_def analyze_node_formula)

text \<open>
  C6 at the tree of the JavaScript text \<^verbatim>\<open>function f() {}\<close>: the file has one function
  element, of complexity 1.0, and the file-level score is 0.0.
\<close>

theorem js_function_file_complexity_zero:
  "(case extract_code_elements js_function_tree ''javascript'' ''f.js'' of
      Inl x \<Rightarrow> False
    | Inr es \<Rightarrow> map (\<lambda>e. (el_type e, el_name e, el_complexity e)) es = [(''function'', ''f'', 1)])
   \<and> calculate_complexity_score (Some js_function_tree) = 0"
  by code_simp

end
